theory Spec2Isabelle
  imports Main "HOL-Library.Word"
begin

section \<open>JavaScript strings\<close>

text \<open>
  A source text is a \<^typ>\<open>string\<close>: a list of 8-bit characters, read as the code units of a
  Latin-1 text.  The extractors only ever test for ASCII keywords, so nothing in the
  claims depends on characters beyond that range.  Numbers read by \<open>parseInt\<close> are
  natural numbers (exact for every value below \<open>2^53\<close>).
\<close>

fun starts_with :: "string \<Rightarrow> string \<Rightarrow> bool" where
  "starts_with s [] = True"
| "starts_with [] (p # ps) = False"
| "starts_with (c # s) (p # ps) = (c = p \<and> starts_with s ps)"

text \<open>\<open>content.includes(sub)\<close>\<close>

fun js_includes :: "string \<Rightarrow> string \<Rightarrow> bool" where
  "js_includes [] sub = (sub = [])"
| "js_includes (c # s) sub = (starts_with (c # s) sub \<or> js_includes s sub)"

text \<open>White space as \<open>\s\<close> and \<open>trim()\<close> see it, within the 8-bit range.\<close>

definition is_space :: "char \<Rightarrow> bool" where
  "is_space c = (c \<in> set [CHR 0x09, CHR 0x0A, CHR 0x0B, CHR 0x0C, CHR 0x0D, CHR 0x20, CHR 0xA0])"

definition is_digit :: "char \<Rightarrow> bool" where
  "is_digit c = (c \<in> set ''0123456789'')"

definition is_word :: "char \<Rightarrow> bool" where
  "is_word c = (c \<in> set ''abcdefghijklmnopqrstuvwxyzABCDEFGHIJKLMNOPQRSTUVWXYZ0123456789_'')"

definition trim :: "string \<Rightarrow> string" where
  "trim s = rev (dropWhile is_space (rev (dropWhile is_space s)))"

text \<open>\<open>s.split(c)\<close> for a one-character separator: never an empty list.\<close>

fun split_on :: "char \<Rightarrow> string \<Rightarrow> string list" where
  "split_on c [] = [[]]"
| "split_on c (x # xs) =
     (if x = c then [] # split_on c xs
      else (case split_on c xs of [] \<Rightarrow> [[x]] | p # ps \<Rightarrow> (x # p) # ps))"

text \<open>\<open>s.replace(/["']/g, '')\<close>\<close>

definition strip_quotes :: "string \<Rightarrow> string" where
  "strip_quotes s = filter (\<lambda>c. c \<noteq> CHR 0x22 \<and> c \<noteq> CHR 0x27) s"

text \<open>\<open>s.replace(pat, rep)\<close> with a string pattern: the first occurrence only.\<close>

fun replace_first :: "string \<Rightarrow> string \<Rightarrow> string \<Rightarrow> string" where
  "replace_first [] pat rep = (if pat = [] then rep else [])"
| "replace_first (c # s) pat rep =
     (if starts_with (c # s) pat then rep @ drop (length pat) (c # s)
      else c # replace_first s pat rep)"

definition to_lower_char :: "char \<Rightarrow> char" where
  "to_lower_char c =
     (case map_of (zip ''ABCDEFGHIJKLMNOPQRSTUVWXYZ'' ''abcdefghijklmnopqrstuvwxyz'') c of
        Some l \<Rightarrow> l
      | None \<Rightarrow> c)"

definition toLowerCase :: "string \<Rightarrow> string" where
  "toLowerCase s = map to_lower_char s"

text \<open>\<open>parseInt\<close> of a string of decimal digits (what \<open>(\d+)\<close> captures).\<close>

definition digit_val :: "char \<Rightarrow> nat" where
  "digit_val c = (case map_of (zip ''0123456789'' [0, 1, 2, 3, 4, 5, 6, 7, 8, 9]) c of
                    Some d \<Rightarrow> d | None \<Rightarrow> 0)"

definition parseInt :: "string \<Rightarrow> nat" where
  "parseInt s = foldl (\<lambda>n c. 10 * n + digit_val c) 0 s"

section \<open>Regular expressions, as the JavaScript engine matches them\<close>

text \<open>
  A backtracking matcher: alternatives are tried left to right, a greedy quantifier tries
  one more iteration before the rest of the pattern, a lazy one the rest first, and an
  iteration that consumes nothing is rejected.  \<open>StarC\<close> and \<open>LazyC\<close> are the quantifiers
  over a single character class.  A pattern is run against a stack of pending items;
  \<open>Progress\<close> and \<open>Close\<close> are the marks an iteration and a capture group leave on it.
  The boolean says whether the position is the start of the input (for \<open>^\<close>).
\<close>

datatype rx =
    Cls "char \<Rightarrow> bool"
  | Eps
  | Seq rx rx
  | Alt rx rx
  | Star rx
  | Lazy rx
  | StarC "char \<Rightarrow> bool"
  | LazyC "char \<Rightarrow> bool"
  | Grp nat rx
  | Bol
  | Eol

datatype item = R rx | Progress string | Close nat string

type_synonym caps = "(nat \<times> string) list"

fun rx_weight :: "rx \<Rightarrow> nat" where
  "rx_weight (Seq a b) = Suc (rx_weight a + rx_weight b)"
| "rx_weight (Alt a b) = Suc (rx_weight a + rx_weight b)"
| "rx_weight (Star a) = 3 + rx_weight a"
| "rx_weight (Lazy a) = 3 + rx_weight a"
| "rx_weight (Grp i a) = 2 + rx_weight a"
| "rx_weight _ = 1"

fun stack_weight :: "item list \<Rightarrow> nat \<Rightarrow> nat" where
  "stack_weight [] n = 0"
| "stack_weight (R r # k) n = rx_weight r + stack_weight k n"
| "stack_weight (Progress s0 # k) n = (if length s0 \<le> n then 1 else Suc (stack_weight k n))"
| "stack_weight (Close i s0 # k) n = Suc (stack_weight k n)"

fun shorter :: "'a list \<Rightarrow> 'a list \<Rightarrow> bool" where
  "shorter [] [] = False"
| "shorter [] (y # ys) = True"
| "shorter (x # xs) [] = False"
| "shorter (x # xs) (y # ys) = shorter xs ys"

lemma shorter_iff: "shorter xs ys \<longleftrightarrow> length xs < length ys"
  by (induction xs ys rule: shorter.induct) auto

function run :: "item list \<Rightarrow> bool \<Rightarrow> string \<Rightarrow> caps \<Rightarrow> (string \<times> caps) option" where
  "run [] b s cs = Some (s, cs)"
| "run (R (Cls p) # k) b [] cs = None"
| "run (R (Cls p) # k) b (c # s) cs = (if p c then run k False s cs else None)"
| "run (R Eps # k) b s cs = run k b s cs"
| "run (R (Seq x y) # k) b s cs = run (R x # R y # k) b s cs"
| "run (R (Alt x y) # k) b s cs =
     (case run (R x # k) b s cs of Some r \<Rightarrow> Some r | None \<Rightarrow> run (R y # k) b s cs)"
| "run (R (Star x) # k) b s cs =
     (case run (R x # Progress s # R (Star x) # k) b s cs of
        Some r \<Rightarrow> Some r
      | None \<Rightarrow> run k b s cs)"
| "run (R (Lazy x) # k) b s cs =
     (case run k b s cs of
        Some r \<Rightarrow> Some r
      | None \<Rightarrow> run (R x # Progress s # R (Lazy x) # k) b s cs)"
| "run (R (StarC p) # k) b [] cs = run k b [] cs"
| "run (R (StarC p) # k) b (c # s) cs =
     (if p c then
        (case run (R (StarC p) # k) False s cs of
           Some r \<Rightarrow> Some r
         | None \<Rightarrow> run k b (c # s) cs)
      else run k b (c # s) cs)"
| "run (R (LazyC p) # k) b [] cs = run k b [] cs"
| "run (R (LazyC p) # k) b (c # s) cs =
     (case run k b (c # s) cs of
        Some r \<Rightarrow> Some r
      | None \<Rightarrow> if p c then run (R (LazyC p) # k) False s cs else None)"
| "run (R (Grp i x) # k) b s cs = run (R x # Close i s # k) b s cs"
| "run (R Bol # k) b s cs = (if b then run k b s cs else None)"
| "run (R Eol # k) b s cs = (if s = [] then run k b s cs else None)"
| "run (Progress s0 # k) b s cs = (if shorter s s0 then run k b s cs else None)"
| "run (Close i s0 # k) b s cs = run k b s ((i, take (length s0 - length s) s0) # cs)"
  by pat_completeness auto
termination
  by (relation "inv_image (less_than <*lex*> less_than)
        (\<lambda>(k, b, s, cs). (length s, stack_weight k (length s)))")
     (auto simp: shorter_iff)

text \<open>
  A match: the input from where the match starts, the input left after it, and the
  captures (the most recent first).  \<open>search\<close> is \<open>content.match(re)\<close> for a pattern
  without the \<open>g\<close> flag: the leftmost start position that matches.
\<close>

record rmatch =
  m_from :: string
  m_rest :: string
  m_caps :: caps

fun search_at :: "rx \<Rightarrow> bool \<Rightarrow> string \<Rightarrow> rmatch option" where
  "search_at r b [] =
     (case run [R r] b [] [] of
        Some (rest, cs) \<Rightarrow> Some \<lparr>m_from = [], m_rest = rest, m_caps = cs\<rparr>
      | None \<Rightarrow> None)"
| "search_at r b (c # s) =
     (case run [R r] b (c # s) [] of
        Some (rest, cs) \<Rightarrow> Some \<lparr>m_from = c # s, m_rest = rest, m_caps = cs\<rparr>
      | None \<Rightarrow> search_at r False s)"

definition search :: "rx \<Rightarrow> string \<Rightarrow> rmatch option" where
  "search r s = search_at r True s"

text \<open>\<open>match[i]\<close>; every group the program reads takes part in every match of its pattern.\<close>

definition group :: "rmatch \<Rightarrow> nat \<Rightarrow> string" where
  "group m i = (case map_of (m_caps m) i of Some g \<Rightarrow> g | None \<Rightarrow> [])"

lemma run_rest_le: "run k b s cs = Some (rest, cs') \<Longrightarrow> length rest \<le> length s"
  by (induction k b s cs rule: run.induct) (auto split: if_splits option.splits)

lemma search_at_from_le: "search_at r b s = Some m \<Longrightarrow> length (m_from m) \<le> length s"
  by (induction r b s rule: search_at.induct) (fastforce split: option.splits)+

text \<open>
  \<open>while ((match = re.exec(content)) !== null)\<close> for a pattern with the \<open>g\<close> flag: the
  successive matches, each search starting where the last match ended.  Such a loop
  would spin on an empty match; both patterns the program scans this way start with a
  literal, so every match consumes input (\<open>userRolePattern_progress\<close> and
  \<open>permissionCheckPattern_progress\<close> below) and the last branch is never taken.
\<close>

function exec_all :: "rx \<Rightarrow> bool \<Rightarrow> string \<Rightarrow> rmatch list" where
  "exec_all r b s =
     (case search_at r b s of
        None \<Rightarrow> []
      | Some m \<Rightarrow> if shorter (m_rest m) (m_from m) then m # exec_all r False (m_rest m) else [m])"
  by pat_completeness auto
termination
  by (relation "measure (\<lambda>(r, b, s). length s)")
     (auto simp: shorter_iff dest: search_at_from_le)

declare exec_all.simps [simp del]

text \<open>Pattern notation.\<close>

definition lit :: "char \<Rightarrow> rx" where
  "lit c = Cls (\<lambda>x. x = c)"

definition str :: "string \<Rightarrow> rx" where
  "str s = foldr (\<lambda>c r. Seq (lit c) r) s Eps"

definition seqs :: "rx list \<Rightarrow> rx" where
  "seqs rs = foldr Seq rs Eps"

definition alts :: "string list \<Rightarrow> rx" where
  "alts ws = foldr (\<lambda>w r. Alt (str w) r) (butlast ws) (str (last ws))"

definition opt :: "rx \<Rightarrow> rx" where
  "opt r = Alt r Eps"

definition plusC :: "(char \<Rightarrow> bool) \<Rightarrow> rx" where
  "plusC p = Seq (Cls p) (StarC p)"

definition one_of :: "string \<Rightarrow> char \<Rightarrow> bool" where
  "one_of cs c = (c \<in> set cs)"

definition none_of :: "string \<Rightarrow> char \<Rightarrow> bool" where
  "none_of cs c = (c \<notin> set cs)"

definition any_char :: "char \<Rightarrow> bool" where
  "any_char c = True"

definition quote :: "char \<Rightarrow> bool" where
  "quote c = (c = CHR 0x22 \<or> c = CHR 0x27)"

section \<open>The working tree and the glob library\<close>

text \<open>
  What the program throws: an \<open>Error\<close> with its message, the \<open>SyntaxError\<close> of
  \<open>JSON.parse\<close>, or the \<open>TypeError\<close> of reading a property of \<open>null\<close>.  The error of
  \<open>readFileSync\<close> on a directory is an \<open>Error\<close> with the code \<open>EISDIR\<close>.
\<close>

datatype js_error = Error string | SyntaxError | TypeError

definition EISDIR :: js_error where
  "EISDIR = Error ''EISDIR: illegal operation on a directory, read''"

text \<open>
  The working tree of one request: its root path, whether that path exists, what is
  at \<open>package.json\<close> (when something is), and the entries under the root, regular files
  and directories alike, in the order the glob library enumerates them, each with its
  path relative to the root.  A regular file carries its text, and a file keeps its text
  for the time of a run.  What is at \<open>package.json\<close>, a path that no pattern of the
  program selects, is kept apart from the entries.  Symbolic links and files that cannot
  be read are not in the model.
\<close>

datatype manifest =
    ManifestDirectory
  | Malformed
  | JsonNull
  | JsonValue "string list"

text \<open>
  \<open>ManifestDirectory\<close>: \<open>package.json\<close> is a directory.  \<open>Malformed\<close>: it is a file and
  \<open>JSON.parse\<close> throws on its text.  \<open>JsonNull\<close>: the text is the JSON value \<open>null\<close>.
  \<open>JsonValue ds\<close>: any other JSON value, \<open>ds\<close> the keys of its \<open>dependencies\<close> object that
  hold a truthy value (none when it has no such object).
\<close>

datatype entry = RegularFile string | Directory

record repo =
  repoPath :: string
  present :: bool
  packageJson :: "manifest option"
  entries :: "(string \<times> entry) list"

text \<open>\<open>readFileSync(path, 'utf-8')\<close>, given what lies at the path.\<close>

definition readFileSync :: "entry \<Rightarrow> js_error + string" where
  "readFileSync e = (case e of RegularFile content \<Rightarrow> Inr content | Directory \<Rightarrow> Inl EISDIR)"

text \<open>An exception leaves the function: the statements after a call that throws are not run.\<close>

definition and_then :: "'e + 'a \<Rightarrow> ('a \<Rightarrow> 'e + 'b) \<Rightarrow> 'e + 'b" where
  "and_then x f = (case x of Inl err \<Rightarrow> Inl err | Inr v \<Rightarrow> f v)"

text \<open>
  \<open>paths.filter(path => { const content = readFileSync(path, 'utf-8'); return p(content) })\<close>:
  every path is read, in order, and the paths whose text passes the test are kept, here
  with the text that a later \<open>readFileSync\<close> of the same path returns again.
\<close>

fun filter_reading ::
  "(string \<Rightarrow> bool) \<Rightarrow> (string \<times> entry) list \<Rightarrow> js_error + (string \<times> string) list" where
  "filter_reading p [] = Inr []"
| "filter_reading p ((path, e) # rest) =
     and_then (readFileSync e) (\<lambda>content.
     and_then (filter_reading p rest) (\<lambda>kept.
       Inr (if p content then (path, content) # kept else kept)))"

text \<open>
  \<open>paths.find(path => { const content = readFileSync(path, 'utf-8'); return p(content) })\<close>:
  the paths are read up to the first whose text passes the test.
\<close>

fun find_reading ::
  "(string \<Rightarrow> bool) \<Rightarrow> (string \<times> entry) list \<Rightarrow> js_error + (string \<times> string) option" where
  "find_reading p [] = Inr None"
| "find_reading p ((path, e) # rest) =
     and_then (readFileSync e) (\<lambda>content.
       if p content then Inr (Some (path, content)) else find_reading p rest)"

text \<open>
  \<open>for (const file of paths) { const content = readFileSync(file, 'utf-8'); ... }\<close> for a
  loop that has no exit but its end: every path is read.  The rest of such a loop's
  body throws nothing and only adds to lists the function returns, so what the function
  does is the same as if all the paths were read before the first body is run.
\<close>

definition read_each :: "(string \<times> entry) list \<Rightarrow> js_error + (string \<times> string) list" where
  "read_each paths = filter_reading (\<lambda>content. True) paths"

text \<open>
  Glob patterns, one path segment at a time: \<open>**\<close>, or a segment of literal characters,
  \<open>*\<close> and bracket expressions.  A bracket expression \<open>[abc]\<close> stands for one character of
  the set.  With the library's default options a name that starts with a dot is matched
  only by a segment that starts with a literal dot, and \<open>**\<close> skips such directories.
\<close>

datatype gatom = GChar char | GAny | GSet string

datatype gseg = GlobStar | Seg "gatom list"

fun seg_match :: "gatom list \<Rightarrow> string \<Rightarrow> bool" where
  "seg_match [] s = (s = [])"
| "seg_match (GChar c # as) [] = False"
| "seg_match (GChar c # as) (x # xs) = (x = c \<and> seg_match as xs)"
| "seg_match (GSet cs # as) [] = False"
| "seg_match (GSet cs # as) (x # xs) = (x \<in> set cs \<and> seg_match as xs)"
| "seg_match (GAny # as) [] = seg_match as []"
| "seg_match (GAny # as) (x # xs) = (seg_match as (x # xs) \<or> seg_match (GAny # as) xs)"

definition seg_ok :: "gatom list \<Rightarrow> string \<Rightarrow> bool" where
  "seg_ok as d =
     ((if starts_with d ''.'' then (case as of GChar c # _ \<Rightarrow> c = CHR ''.'' | _ \<Rightarrow> False) else True)
      \<and> seg_match as d)"

fun glob_match :: "gseg list \<Rightarrow> string list \<Rightarrow> bool" where
  "glob_match [] segs = (segs = [])"
| "glob_match (GlobStar # ps) [] = glob_match ps []"
| "glob_match (GlobStar # ps) (d # ds) =
     (glob_match ps (d # ds) \<or> (\<not> starts_with d ''.'' \<and> glob_match (GlobStar # ps) ds))"
| "glob_match (Seg as # ps) [] = False"
| "glob_match (Seg as # ps) (d # ds) = (seg_ok as d \<and> glob_match ps ds)"

text \<open>A brace list of extensions \<open>dirs/stem.{e1,e2,...}\<close> expands to one pattern for each.\<close>

definition with_exts :: "gseg list \<Rightarrow> gatom list \<Rightarrow> string list \<Rightarrow> gseg list list" where
  "with_exts dirs stem exts = map (\<lambda>e. dirs @ [Seg (stem @ map GChar (CHR ''.'' # e))]) exts"

definition abs_path :: "repo \<Rightarrow> string \<Rightarrow> string" where
  "abs_path r rel = repoPath r @ ''/'' @ rel"

text \<open>
  \<open>glob.sync(pattern, { cwd: repoPath, absolute: true })\<close>: the absolute paths of the
  entries the pattern selects, directories among them (the option \<open>nodir\<close> is not set),
  each paired with what lies there.
\<close>

definition glob_sync :: "gseg list list \<Rightarrow> repo \<Rightarrow> (string \<times> entry) list" where
  "glob_sync pats r =
     map (\<lambda>(rel, e). (abs_path r rel, e))
       (filter (\<lambda>(rel, e). list_ex (\<lambda>p. glob_match p (split_on CHR ''/'' rel)) pats) (entries r))"

text \<open>\<open>**/*.{ts,tsx,js}\<close>\<close>

definition source_files :: "gseg list list" where
  "source_files = with_exts [GlobStar] [GAny] [''ts'', ''tsx'', ''js'']"

section \<open>The role-model extractor\<close>

record RoleDefinition =
  role_name :: string
  role_permissions :: "string list"

record PermissionDefinition =
  perm_name :: string

record RoleModelImplementation =
  rmi_filePath :: string
  rmi_template :: string
  rmi_checkPattern :: string

text \<open>
  A value read from \<open>levelMap\<close>: a level of the table, or a member that every object
  inherits from \<open>Object.prototype\<close> (a function or an object, so truthy).
\<close>

datatype level = Level nat | Inherited

record RoleHierarchy =
  levels :: "(string \<times> level) list"

record RoleModel =
  rm_roles :: "RoleDefinition list"
  rm_permissions :: "PermissionDefinition list"
  rm_implementation :: RoleModelImplementation
  rm_hierarchy :: "RoleHierarchy option"

text \<open>\<open>/(?:const|let|var)\s+roles?\s*=\s*\[([^\]]+)\]/s\<close>\<close>

definition roleArrayPattern :: rx where
  "roleArrayPattern =
     seqs [alts [''const'', ''let'', ''var''], plusC is_space, str ''role'', opt (lit CHR ''s''),
           StarC is_space, lit CHR ''='', StarC is_space,
           lit CHR ''['', Grp 1 (plusC (none_of '']'')), lit CHR '']'']"

text \<open>\<open>/(?:const|let|var)\s+roles?\s*=\s*\{([^}]+)\}/s\<close>\<close>

definition roleObjectPattern :: rx where
  "roleObjectPattern =
     seqs [alts [''const'', ''let'', ''var''], plusC is_space, str ''role'', opt (lit CHR ''s''),
           StarC is_space, lit CHR ''='', StarC is_space,
           lit CHR ''{'', Grp 1 (plusC (none_of ''}'')), lit CHR ''}'']"

text \<open>\<open>/(\w+):\s*\[([^\]]+)\]/\<close>\<close>

definition roleEntryPattern :: rx where
  "roleEntryPattern =
     seqs [Grp 1 (plusC is_word), lit CHR '':'', StarC is_space,
           lit CHR ''['', Grp 2 (plusC (none_of '']'')), lit CHR '']'']"

text \<open>\<open>/user\.role\s*[=:]\s*["'](\w+)["']/g\<close>\<close>

definition userRolePattern :: rx where
  "userRolePattern =
     seqs [str ''user.role'', StarC is_space, Cls (one_of ''=:''), StarC is_space,
           Cls quote, Grp 1 (plusC is_word), Cls quote]"

definition commonRoles :: "string list" where
  "commonRoles = [''admin'', ''user'', ''viewer'', ''editor'', ''moderator'', ''guest'']"

text \<open>A literal in double or in single quotes after a prefix: \<open>`role === "${roleName}"`\<close>.\<close>

definition dquoted :: "string \<Rightarrow> string \<Rightarrow> string" where
  "dquoted pre w = pre @ [CHR 0x22] @ w @ [CHR 0x22]"

definition squoted :: "string \<Rightarrow> string \<Rightarrow> string" where
  "squoted pre w = pre @ [CHR 0x27] @ w @ [CHR 0x27]"

text \<open>\<open>roles.find(r => r.name === roleName)\<close>, as a truth value.\<close>

definition has_role :: "RoleDefinition list \<Rightarrow> string \<Rightarrow> bool" where
  "has_role roles n = list_ex (\<lambda>r. role_name r = n) roles"

definition add_role :: "RoleDefinition list \<Rightarrow> string \<Rightarrow> RoleDefinition list" where
  "add_role roles n =
     (if has_role roles n then roles else roles @ [\<lparr>role_name = n, role_permissions = []\<rparr>])"

definition extractRoles :: "string \<Rightarrow> RoleDefinition list" where
  "extractRoles content =
     (let roles1 =
            (case search roleArrayPattern content of
               Some m \<Rightarrow>
                 map (\<lambda>n. \<lparr>role_name = n, role_permissions = []\<rparr>)
                   (filter (\<lambda>n. n \<noteq> [])
                      (map (\<lambda>s. strip_quotes (trim s)) (split_on CHR '','' (group m 1))))
             | None \<Rightarrow> []);
          roles2 =
            (case search roleObjectPattern content of
               Some m \<Rightarrow>
                 roles1 @
                 concat (map (\<lambda>entry.
                           (case search roleEntryPattern entry of
                              Some e \<Rightarrow>
                                [\<lparr>role_name = group e 1,
                                  role_permissions =
                                    map (\<lambda>p. strip_quotes (trim p)) (split_on CHR '','' (group e 2))\<rparr>]
                            | None \<Rightarrow> []))
                         (map trim (split_on CHR '','' (group m 1))))
             | None \<Rightarrow> roles1);
          roles3 =
            foldl (\<lambda>roles roleName.
                     if js_includes content (dquoted ''role === '' roleName) \<or>
                        js_includes content (squoted ''role === '' roleName) \<or>
                        js_includes content (dquoted ''role: '' roleName) \<or>
                        js_includes content (squoted ''role: '' roleName)
                     then add_role roles roleName else roles)
                  roles2 commonRoles;
          roles4 =
            foldl (\<lambda>roles m. add_role roles (group m 1)) roles3 (exec_all userRolePattern True content)
      in roles4)"

text \<open>\<open>/(?:const|let|var)\s+permissions?\s*=\s*\[([^\]]+)\]/s\<close>\<close>

definition permissionArrayPattern :: rx where
  "permissionArrayPattern =
     seqs [alts [''const'', ''let'', ''var''], plusC is_space, str ''permission'', opt (lit CHR ''s''),
           StarC is_space, lit CHR ''='', StarC is_space,
           lit CHR ''['', Grp 1 (plusC (none_of '']'')), lit CHR '']'']"

text \<open>\<open>/(?:hasPermission|can|checkPermission)\s*\([^,]+,\s*["'](\w+)["']/g\<close>\<close>

definition permissionCheckPattern :: rx where
  "permissionCheckPattern =
     seqs [alts [''hasPermission'', ''can'', ''checkPermission''], StarC is_space, lit CHR ''('',
           plusC (none_of '',''), lit CHR '','', StarC is_space,
           Cls quote, Grp 1 (plusC is_word), Cls quote]"

definition commonPermissions :: "string list" where
  "commonPermissions =
     [''read'', ''write'', ''delete'', ''update'', ''create'', ''view'', ''edit'', ''admin'']"

definition add_permission :: "PermissionDefinition list \<Rightarrow> string \<Rightarrow> PermissionDefinition list" where
  "add_permission perms n =
     (if list_ex (\<lambda>p. perm_name p = n) perms then perms else perms @ [\<lparr>perm_name = n\<rparr>])"

definition extractPermissions :: "string \<Rightarrow> PermissionDefinition list" where
  "extractPermissions content =
     (let perms1 =
            (case search permissionArrayPattern content of
               Some m \<Rightarrow>
                 map (\<lambda>n. \<lparr>perm_name = n\<rparr>)
                   (filter (\<lambda>n. n \<noteq> [])
                      (map (\<lambda>s. strip_quotes (trim s)) (split_on CHR '','' (group m 1))))
             | None \<Rightarrow> []);
          perms2 =
            foldl (\<lambda>perms m. add_permission perms (group m 1)) perms1
              (exec_all permissionCheckPattern True content);
          perms3 =
            foldl (\<lambda>perms permName.
                     if js_includes content (dquoted ''permission === '' permName) \<or>
                        js_includes content (squoted ''permission === '' permName)
                     then add_permission perms permName else perms)
                  perms2 commonPermissions
      in perms3)"

text \<open>
  \<open>/(?:function|const)\s+\w*[Rr]ole\w*\s*[=\(].*?\{([^}]+(?:\{[^}]*\}[^}]*)*)\}/s\<close>
\<close>

definition braced_body :: rx where
  "braced_body =
     Seq (plusC (none_of ''}''))
         (Star (seqs [lit CHR ''{'', StarC (none_of ''}''), lit CHR ''}'', StarC (none_of ''}'')]))"

definition roleCheckPattern :: rx where
  "roleCheckPattern =
     seqs [alts [''function'', ''const''], plusC is_space, StarC is_word, Cls (one_of ''Rr''),
           str ''ole'', StarC is_word, StarC is_space, Cls (one_of ''=(''), LazyC any_char,
           lit CHR ''{'', Grp 1 braced_body, lit CHR ''}'']"

text \<open>\<open>/(?:user\.role|role)\s*[=!]==\s*["'](\w+)["']/\<close>\<close>

definition inlineCheckPattern :: rx where
  "inlineCheckPattern =
     seqs [alts [''user.role'', ''role''], StarC is_space, Cls (one_of ''=!''), str ''=='',
           StarC is_space, Cls quote, Grp 1 (plusC is_word), Cls quote]"

text \<open>\<open>/if\s*\([^)]*role[^)]*\)\s*\{([^}]+)\}/s\<close>\<close>

definition conditionCheckPattern :: rx where
  "conditionCheckPattern =
     seqs [str ''if'', StarC is_space, lit CHR ''('', StarC (none_of '')''), str ''role'',
           StarC (none_of '')''), lit CHR '')'', StarC is_space,
           lit CHR ''{'', Grp 1 (plusC (none_of ''}'')), lit CHR ''}'']"

definition extractRoleCheckPattern :: "string \<Rightarrow> string option" where
  "extractRoleCheckPattern content =
     (case search roleCheckPattern content of
        Some m \<Rightarrow> Some (trim (group m 1))
      | None \<Rightarrow>
          (case search inlineCheckPattern content of
             Some m \<Rightarrow> Some (dquoted ''role === '' (group m 1))
           | None \<Rightarrow>
               (case search conditionCheckPattern content of
                  Some m \<Rightarrow> Some (trim (group m 1))
                | None \<Rightarrow> None)))"

text \<open>
  \<open>levelMap[key]\<close>: the six levels of the table and, for the other keys every object
  answers to, the inherited member.
\<close>

definition levelMap :: "string \<Rightarrow> level option" where
  "levelMap key =
     (case map_of [(''admin'', 3), (''moderator'', 2), (''editor'', 2),
                   (''user'', 1), (''viewer'', 1), (''guest'', 0)] key of
        Some n \<Rightarrow> Some (Level n)
      | None \<Rightarrow>
          if key \<in> set [''constructor'', ''__proto__'', ''toString'', ''valueOf'', ''toLocaleString'',
                         ''hasOwnProperty'', ''isPrototypeOf'', ''propertyIsEnumerable'',
                         ''__defineGetter__'', ''__defineSetter__'', ''__lookupGetter__'',
                         ''__lookupSetter__'']
          then Some Inherited else None)"

text \<open>The truth value \<open>if (levelMap[...])\<close> tests: \<open>undefined\<close> and \<open>0\<close> are falsy.\<close>

definition truthy_level :: "level option \<Rightarrow> bool" where
  "truthy_level v = (case v of None \<Rightarrow> False | Some (Level n) \<Rightarrow> n \<noteq> 0 | Some Inherited \<Rightarrow> True)"

text \<open>
  A JavaScript \<open>Map\<close> (and the own properties of an object with string keys that are not
  array indices): \<open>set\<close> overwrites the value of a key that is there, in place, and
  appends a new key.
\<close>

fun map_set :: "('k \<times> 'v) list \<Rightarrow> 'k \<Rightarrow> 'v \<Rightarrow> ('k \<times> 'v) list" where
  "map_set [] k v = [(k, v)]"
| "map_set ((k', v') # m) k v = (if k' = k then (k', v) # m else (k', v') # map_set m k v)"

text \<open>\<open>new Map(pairs)\<close> and \<open>Array.from(map.values())\<close>\<close>

definition new_Map :: "('k \<times> 'v) list \<Rightarrow> ('k \<times> 'v) list" where
  "new_Map pairs = foldl (\<lambda>m (k, v). map_set m k v) [] pairs"

definition map_values :: "('k \<times> 'v) list \<Rightarrow> 'v list" where
  "map_values m = map snd m"

text \<open>\<open>hierarchy[key] = v\<close>: assigning to \<open>__proto__\<close> creates no property.\<close>

definition assign :: "(string \<times> level) list \<Rightarrow> string \<Rightarrow> level \<Rightarrow> (string \<times> level) list" where
  "assign obj key v = (if key = ''__proto__'' then obj else map_set obj key v)"

definition extractHierarchy :: "RoleDefinition list \<Rightarrow> RoleHierarchy option" where
  "extractHierarchy roles =
     (let hierarchy =
            foldl (\<lambda>h role.
                     if truthy_level (levelMap (toLowerCase (role_name role)))
                     then (case levelMap (toLowerCase (role_name role)) of
                             Some v \<Rightarrow> assign h (role_name role) v
                           | None \<Rightarrow> h)
                     else h)
                  [] roles
      in if length hierarchy = 0 then None else Some \<lparr>levels = hierarchy\<rparr>)"

text \<open>The files the extractor reads: those that mention a role keyword.\<close>

definition mentions_roles :: "string \<Rightarrow> bool" where
  "mentions_roles content =
     (js_includes content ''role'' \<or> js_includes content ''Role'' \<or>
      js_includes content ''permission'' \<or> js_includes content ''Permission'' \<or>
      js_includes content ''admin'' \<or> js_includes content ''user'' \<or>
      js_includes content ''RBAC'' \<or> js_includes content ''ABAC'')"

definition roleFiles :: "repo \<Rightarrow> js_error + (string \<times> string) list" where
  "roleFiles r = filter_reading mentions_roles (glob_sync source_files r)"

text \<open>One round of the loop over \<open>roleFiles\<close>, on the three variables it updates.\<close>

definition role_step ::
  "string \<Rightarrow> RoleDefinition list \<times> PermissionDefinition list \<times> RoleModelImplementation
     \<Rightarrow> string \<times> string
     \<Rightarrow> RoleDefinition list \<times> PermissionDefinition list \<times> RoleModelImplementation" where
  "role_step root st f =
     (case st of (roles, permissions, implementation) \<Rightarrow>
      (case f of (file, content) \<Rightarrow>
        (roles @ extractRoles content,
         permissions @ extractPermissions content,
         (case extractRoleCheckPattern content of
            Some pat \<Rightarrow>
              if pat \<noteq> [] \<and> rmi_checkPattern implementation = []
              then \<lparr>rmi_filePath = replace_first file root [],
                    rmi_template = take 1000 content,
                    rmi_checkPattern = pat\<rparr>
              else implementation
          | None \<Rightarrow> implementation))))"

definition extractRoleModel :: "repo \<Rightarrow> js_error + RoleModel" where
  "extractRoleModel r =
     and_then (roleFiles r) (\<lambda>files.
       case foldl (role_step (repoPath r))
              ([], [], \<lparr>rmi_filePath = [], rmi_template = [], rmi_checkPattern = []\<rparr>)
              files of
         (roles, permissions, implementation) \<Rightarrow>
           (let uniqueRoles = map_values (new_Map (map (\<lambda>x. (role_name x, x)) roles));
                uniquePermissions = map_values (new_Map (map (\<lambda>p. (perm_name p, p)) permissions))
            in Inr \<lparr>rm_roles = uniqueRoles,
                     rm_permissions = uniquePermissions,
                     rm_implementation = implementation,
                     rm_hierarchy = extractHierarchy uniqueRoles\<rparr>))"

section \<open>The token-strategy extractor\<close>

datatype token_storage = CookieStorage | LocalStorageToken | MemoryStorage | HttpOnly

datatype refresh_type = Automatic | Manual | Rotation | NoRefresh

datatype refresh_trigger = BeforeExpiry | OnDemand | Interval

record TokenConfig =
  lifetime :: nat
  storage :: token_storage
  httpOnly :: "bool option"
  secure :: "bool option"
  sameSite :: "string option"

record RefreshStrategy =
  rs_type :: refresh_type
  rs_trigger :: refresh_trigger
  rs_interval :: "nat option"
  rs_implementation :: string
  rs_filePath :: "string option"

record TokenStrategyImplementation =
  tsi_filePath :: string
  tsi_template :: string
  tsi_refreshLogic :: "string option"

record TokenStrategy =
  accessToken :: TokenConfig
  refreshToken :: "TokenConfig option"
  refreshStrategy :: RefreshStrategy
  ts_implementation :: TokenStrategyImplementation

text \<open>
  The three patterns built for a token name:
  \<open>`${tokenName}[^}]*maxAge:\\s*(\\d+)`\<close>,
  \<open>`${tokenName}[^}]*expires_in[^:]*:\\s*(\\d+)`\<close> and
  \<open>`${tokenName}[^}]*expiresIn[^:]*:\\s*(\\d+)`\<close>, each with the flag \<open>s\<close>.
\<close>

definition maxAgePattern :: "string \<Rightarrow> rx" where
  "maxAgePattern tokenName =
     seqs [str tokenName, StarC (none_of ''}''), str ''maxAge:'', StarC is_space,
           Grp 1 (plusC is_digit)]"

definition expiresPattern :: "string \<Rightarrow> string \<Rightarrow> rx" where
  "expiresPattern tokenName key =
     seqs [str tokenName, StarC (none_of ''}''), str key, StarC (none_of '':''), lit CHR '':'',
           StarC is_space, Grp 1 (plusC is_digit)]"

fun extractTokenLifetime :: "string \<Rightarrow> string list \<Rightarrow> nat option" where
  "extractTokenLifetime content [] = None"
| "extractTokenLifetime content (tokenName # tokenNames) =
     (case search (maxAgePattern tokenName) content of
        Some m \<Rightarrow> Some (parseInt (group m 1))
      | None \<Rightarrow>
          (case search (expiresPattern tokenName ''expires_in'') content of
             Some m \<Rightarrow> Some (parseInt (group m 1))
           | None \<Rightarrow>
               (case search (expiresPattern tokenName ''expiresIn'') content of
                  Some m \<Rightarrow> Some (parseInt (group m 1))
                | None \<Rightarrow> extractTokenLifetime content tokenNames)))"

text \<open>
  \<open>/(?:async\s+)?(?:function\s+)?refresh[^{]*\{([^}]+(?:\{[^}]*\}[^}]*)*)\}/s\<close> and
  \<open>/useEffect\s*\([^)]*\{([^}]+(?:\{[^}]*\}[^}]*)*)\}/s\<close>
\<close>

definition refreshFunctionPattern :: rx where
  "refreshFunctionPattern =
     seqs [opt (Seq (str ''async'') (plusC is_space)), opt (Seq (str ''function'') (plusC is_space)),
           str ''refresh'', StarC (none_of ''{''), lit CHR ''{'', Grp 1 braced_body, lit CHR ''}'']"

definition useEffectPattern :: rx where
  "useEffectPattern =
     seqs [str ''useEffect'', StarC is_space, lit CHR ''('', StarC (none_of '')''),
           lit CHR ''{'', Grp 1 braced_body, lit CHR ''}'']"

definition extractRefreshLogic :: "string \<Rightarrow> string option" where
  "extractRefreshLogic content =
     (case search refreshFunctionPattern content of
        Some m \<Rightarrow> Some (trim (group m 1))
      | None \<Rightarrow>
          (case search useEffectPattern content of
             Some m \<Rightarrow> if js_includes (group m 1) ''refresh'' then Some (trim (group m 1)) else None
           | None \<Rightarrow> None))"

text \<open>\<open>x || ''\<close> for a string or \<open>null\<close>.\<close>

definition or_empty :: "string option \<Rightarrow> string" where
  "or_empty x = (case x of Some v \<Rightarrow> v | None \<Rightarrow> [])"

text \<open>\<open>/setInterval[^,]*,\s*(\d+)/\<close>\<close>

definition intervalPattern :: rx where
  "intervalPattern =
     seqs [str ''setInterval'', StarC (none_of '',''), lit CHR '','', StarC is_space,
           Grp 1 (plusC is_digit)]"

definition extractRefreshStrategy :: "string \<Rightarrow> string \<Rightarrow> string \<Rightarrow> RefreshStrategy" where
  "extractRefreshStrategy content filePath root =
     (if js_includes content ''setInterval'' \<or>
         js_includes content ''useEffect'' \<and> js_includes content ''refresh''
      then \<lparr>rs_type = Automatic, rs_trigger = Interval,
             rs_interval = Some (case search intervalPattern content of
                                   Some m \<Rightarrow> parseInt (group m 1)
                                 | None \<Rightarrow> 300000),
             rs_implementation = or_empty (extractRefreshLogic content),
             rs_filePath = Some (replace_first filePath root [])\<rparr>
      else if js_includes content ''expires'' \<and> js_includes content ''refresh''
      then \<lparr>rs_type = Automatic, rs_trigger = BeforeExpiry, rs_interval = None,
             rs_implementation = or_empty (extractRefreshLogic content),
             rs_filePath = Some (replace_first filePath root [])\<rparr>
      else if js_includes content ''refresh'' \<and>
              (js_includes content ''function'' \<or> js_includes content ''const'' \<or>
               js_includes content ''async'')
      then \<lparr>rs_type = Manual, rs_trigger = OnDemand, rs_interval = None,
             rs_implementation = or_empty (extractRefreshLogic content),
             rs_filePath = Some (replace_first filePath root [])\<rparr>
      else \<lparr>rs_type = Manual, rs_trigger = OnDemand, rs_interval = None,
             rs_implementation = [], rs_filePath = None\<rparr>)"

text \<open>\<open>/secure:\s*(true|false)/\<close> and \<open>/sameSite:\s*["'](\w+)["']/\<close>\<close>

definition securePattern :: rx where
  "securePattern = seqs [str ''secure:'', StarC is_space, Grp 1 (alts [''true'', ''false''])]"

definition sameSitePattern :: rx where
  "sameSitePattern =
     seqs [str ''sameSite:'', StarC is_space, Cls quote, Grp 1 (plusC is_word), Cls quote]"

text \<open>\<open>content.match(/secure:\s*(true|false)/)?.[1] === 'true'\<close>\<close>

definition secure_flag :: "string \<Rightarrow> bool" where
  "secure_flag content =
     (case search securePattern content of Some m \<Rightarrow> group m 1 = ''true'' | None \<Rightarrow> False)"

definition mentions_tokens :: "string \<Rightarrow> bool" where
  "mentions_tokens content =
     (js_includes content ''access_token'' \<or> js_includes content ''accessToken'' \<or>
      js_includes content ''refresh_token'' \<or> js_includes content ''refreshToken'' \<or>
      js_includes content ''idToken'' \<or> js_includes content ''id_token'')"

definition tokenFiles :: "repo \<Rightarrow> js_error + (string \<times> string) list" where
  "tokenFiles r = filter_reading mentions_tokens (glob_sync source_files r)"

text \<open>
  \<open>extractTokenLifetime(content, 'access_token', 'accessToken', 'idToken', 'id_token')\<close>
\<close>

definition accessTokenLifetime :: "string \<Rightarrow> nat option" where
  "accessTokenLifetime content =
     extractTokenLifetime content [''access_token'', ''accessToken'', ''idToken'', ''id_token'']"

text \<open>One round of the loop over \<open>tokenFiles\<close>, on the four variables it updates.\<close>

definition token_step :: "string \<Rightarrow> TokenStrategy \<Rightarrow> string \<times> string \<Rightarrow> TokenStrategy" where
  "token_step root st f =
     (case f of (file, content) \<Rightarrow>
      (let at1 = (case accessTokenLifetime content of
                    Some n \<Rightarrow> if n \<noteq> 0 then (accessToken st)\<lparr>lifetime := n\<rparr> else accessToken st
                  | None \<Rightarrow> accessToken st);
           refreshing = (js_includes content ''refresh_token'' \<or> js_includes content ''refreshToken'');
           rt = (if refreshing
                 then Some \<lparr>lifetime =
                              (case extractTokenLifetime content [''refresh_token'', ''refreshToken''] of
                                 Some n \<Rightarrow> if n \<noteq> 0 then n else 604800
                               | None \<Rightarrow> 604800),
                            storage = HttpOnly, httpOnly = None, secure = None, sameSite = None\<rparr>
                 else refreshToken st);
           rs = (if refreshing \<and>
                    (js_includes content ''refresh'' \<or> js_includes content ''refreshToken'')
                 then extractRefreshStrategy content file root
                 else refreshStrategy st);
           at2 = (if js_includes content ''httpOnly''
                  then at1\<lparr>httpOnly := Some True, storage := HttpOnly\<rparr> else at1);
           at3 = (if js_includes content ''secure:''
                  then at2\<lparr>secure := Some (secure_flag content)\<rparr> else at2);
           at4 = (if js_includes content ''sameSite''
                  then (case search sameSitePattern content of
                          Some m \<Rightarrow> if group m 1 \<noteq> [] then at3\<lparr>sameSite := Some (group m 1)\<rparr> else at3
                        | None \<Rightarrow> at3)
                  else at3);
           impl = (if tsi_filePath (ts_implementation st) = [] \<or>
                      length content < length (tsi_template (ts_implementation st))
                   then \<lparr>tsi_filePath = replace_first file root [],
                         tsi_template = take 1000 content,
                         tsi_refreshLogic = extractRefreshLogic content\<rparr>
                   else ts_implementation st)
       in \<lparr>accessToken = at4, refreshToken = rt, refreshStrategy = rs, ts_implementation = impl\<rparr>))"

definition token_defaults :: TokenStrategy where
  "token_defaults =
     \<lparr>accessToken = \<lparr>lifetime = 3600, storage = HttpOnly, httpOnly = None, secure = None,
                      sameSite = None\<rparr>,
      refreshToken = None,
      refreshStrategy = \<lparr>rs_type = NoRefresh, rs_trigger = OnDemand, rs_interval = None,
                          rs_implementation = [], rs_filePath = None\<rparr>,
      ts_implementation = \<lparr>tsi_filePath = [], tsi_template = [], tsi_refreshLogic = None\<rparr>\<rparr>"

definition extractTokenStrategy :: "repo \<Rightarrow> js_error + TokenStrategy" where
  "extractTokenStrategy r =
     and_then (tokenFiles r) (\<lambda>files.
       Inr (foldl (token_step (repoPath r)) token_defaults files))"


section \<open>The auth-provider extractor\<close>

datatype provider_type = NextAuth | Firebase | Cognito | Custom | OAuth | MagicLink | Unknown

record AuthProviderConfig =
  providers :: "string list"
  adapter :: "string option"
  cfg_strategy :: "string option"
  secret :: "string option"
  projectId :: "string option"
  cfg_domain :: "string option"
  clientId :: "string option"

record AuthProviderImplementation =
  api_filePath :: string
  api_template :: string
  api_setup :: string
  api_usage :: string

record CallbackPattern =
  cb_name :: string
  cb_implementation :: string
  cb_filePath :: string

record AuthProvider =
  ap_type :: provider_type
  ap_name :: string
  configuration :: AuthProviderConfig
  ap_implementation :: AuthProviderImplementation
  callbacks :: "CallbackPattern list option"

definition nextauth_setup :: string where
  \<open>nextauth_setup =
     ''import NextAuth from "next-auth"'' @ [CHR 0x0A] @
     ''import { authOptions } from "@/libs/next-auth"'' @ [CHR 0x0A, CHR 0x0A] @
     ''const handler = NextAuth(authOptions)'' @ [CHR 0x0A] @
     ''export { handler as GET, handler as POST }''\<close>

definition nextauth_usage :: string where
  \<open>nextauth_usage =
     ''import { useSession } from "next-auth/react"'' @ [CHR 0x0A] @
     ''const { data: session, status } = useSession()''\<close>

definition firebase_setup :: string where
  \<open>firebase_setup =
     ''import { initializeApp } from "firebase/app"'' @ [CHR 0x0A] @
     ''import { getAuth } from "firebase/auth"'' @ [CHR 0x0A, CHR 0x0A] @
     ''const firebaseConfig = { /* config */ }'' @ [CHR 0x0A] @
     ''const app = initializeApp(firebaseConfig)'' @ [CHR 0x0A] @
     ''export const auth = getAuth(app)''\<close>

definition firebase_usage :: string where
  \<open>firebase_usage =
     ''import { signInWithEmailAndPassword } from "firebase/auth"'' @ [CHR 0x0A] @
     ''import { auth } from "@/libs/firebase"''\<close>

definition cognito_setup :: string where
  "cognito_setup =
     ''// AWS Cognito configuration'' @ [CHR 0x0A] @
     ''const COGNITO_DOMAIN = process.env.COGNITO_DOMAIN'' @ [CHR 0x0A] @
     ''const COGNITO_CLIENT_ID = process.env.COGNITO_CLIENT_ID''"

definition cognito_usage :: string where
  "cognito_usage = ''// Cognito authentication via API routes''"

text \<open>
  The pattern of a callback,
  \<open>callbackName:\s*async?\s*\([^)]*\)\s*=>\s*\{([^}]+(?:\{[^}]*\}[^}]*)*)\}\<close> with the flag
  \<open>s\<close>; \<open>async?\<close> is \<open>asyn\<close> and an optional \<open>c\<close>.
\<close>

definition callbackPattern :: "string \<Rightarrow> rx" where
  "callbackPattern callbackName =
     seqs [str callbackName, lit CHR '':'', StarC is_space, str ''asyn'', opt (lit CHR ''c''),
           StarC is_space, lit CHR ''('', StarC (none_of '')''), lit CHR '')'', StarC is_space,
           str ''=>'', StarC is_space, lit CHR ''{'', Grp 1 braced_body, lit CHR ''}'']"

definition extractCallback :: "string \<Rightarrow> string \<Rightarrow> string option" where
  "extractCallback content callbackName =
     (case search (callbackPattern callbackName) content of
        Some m \<Rightarrow> Some (trim (group m 1))
      | None \<Rightarrow> None)"

text \<open>\<open>content.indexOf(pat)\<close>, \<open>None\<close> for \<open>-1\<close>.\<close>

fun index_of :: "string \<Rightarrow> string \<Rightarrow> nat option" where
  "index_of [] pat = (if pat = [] then Some 0 else None)"
| "index_of (c # s) pat =
     (if starts_with (c # s) pat then Some 0 else map_option Suc (index_of s pat))"

text \<open>
  The loop of \<open>extractCodeBlock\<close> from the start index on: the number of characters up
  to and including the brace that closes the first block, \<open>None\<close> when the text ends
  before.  The counter goes below zero on a closing brace that opens nothing.
\<close>

fun scan_block :: "string \<Rightarrow> int \<Rightarrow> bool \<Rightarrow> nat option" where
  "scan_block [] braceCount inBlock = None"
| "scan_block (c # s) braceCount inBlock =
     (if c = CHR ''{'' then map_option Suc (scan_block s (braceCount + 1) True)
      else if c = CHR ''}'' then
        (if inBlock \<and> braceCount - 1 = 0 then Some 1
         else map_option Suc (scan_block s (braceCount - 1) inBlock))
      else map_option Suc (scan_block s braceCount inBlock))"

definition extractCodeBlock :: "string \<Rightarrow> string \<Rightarrow> string option" where
  "extractCodeBlock content startPattern =
     (case index_of content startPattern of
        None \<Rightarrow> None
      | Some startIndex \<Rightarrow>
          Some (case scan_block (drop startIndex content) 0 False of
                  Some n \<Rightarrow> take n (drop startIndex content)
                | None \<Rightarrow> []))"

text \<open>\<open>/strategy:\s*["'](\w+)["']/\<close>\<close>

definition strategyPattern :: rx where
  "strategyPattern =
     seqs [str ''strategy:'', StarC is_space, Cls quote, Grp 1 (plusC is_word), Cls quote]"

definition extractNextAuth :: "string \<Rightarrow> string \<Rightarrow> string \<Rightarrow> AuthProvider" where
  "extractNextAuth filePath content root =
     (let providers =
            (if js_includes content ''GoogleProvider'' then [''google''] else []) @
            (if js_includes content ''EmailProvider'' then [''email''] else []) @
            (if js_includes content ''GitHubProvider'' then [''github''] else []) @
            (if js_includes content ''CredentialsProvider'' then [''credentials''] else []);
          adapter1 = (if js_includes content ''MongoDBAdapter'' then Some ''mongodb'' else None);
          adapter2 = (if js_includes content ''FirestoreAdapter'' then Some ''firestore'' else adapter1);
          adapter3 = (if js_includes content ''PrismaAdapter'' then Some ''prisma'' else adapter2);
          sessionStrategy =
            (case search strategyPattern content of
               Some m \<Rightarrow> if group m 1 \<noteq> [] then group m 1 else ''jwt''
             | None \<Rightarrow> ''jwt'');
          callbacks =
            (case extractCallback content ''session'' of
               Some b \<Rightarrow> if b \<noteq> [] then [\<lparr>cb_name = ''session'', cb_implementation = b,
                                             cb_filePath = filePath\<rparr>] else []
             | None \<Rightarrow> []) @
            (case extractCallback content ''jwt'' of
               Some b \<Rightarrow> if b \<noteq> [] then [\<lparr>cb_name = ''jwt'', cb_implementation = b,
                                             cb_filePath = filePath\<rparr>] else []
             | None \<Rightarrow> []);
          template = extractCodeBlock content ''authOptions''
      in \<lparr>ap_type = NextAuth, ap_name = ''NextAuth.js'',
           configuration = \<lparr>providers = providers, adapter = adapter3,
                              cfg_strategy = Some sessionStrategy,
                              secret = Some ''process.env.NEXTAUTH_SECRET'',
                              projectId = None, cfg_domain = None, clientId = None\<rparr>,
           ap_implementation =
             \<lparr>api_filePath = replace_first filePath root [],
              api_template = (case template of Some t \<Rightarrow> if t \<noteq> [] then t else content
                              | None \<Rightarrow> content),
              api_setup = nextauth_setup, api_usage = nextauth_usage\<rparr>,
           callbacks = Some callbacks\<rparr>)"

definition extractFirebaseAuth :: "string \<Rightarrow> string \<Rightarrow> string \<Rightarrow> AuthProvider" where
  "extractFirebaseAuth filePath content root =
     \<lparr>ap_type = Firebase, ap_name = ''Firebase Authentication'',
      configuration = \<lparr>providers = [''firebase''], adapter = None, cfg_strategy = None,
                         secret = None, projectId = Some ''process.env.FIREBASE_PROJECT_ID'',
                         cfg_domain = None, clientId = None\<rparr>,
      ap_implementation = \<lparr>api_filePath = replace_first filePath root [], api_template = content,
                             api_setup = firebase_setup, api_usage = firebase_usage\<rparr>,
      callbacks = None\<rparr>"

definition extractCognito :: "string \<Rightarrow> string \<Rightarrow> string \<Rightarrow> AuthProvider" where
  "extractCognito filePath content root =
     \<lparr>ap_type = Cognito, ap_name = ''AWS Cognito'',
      configuration = \<lparr>providers = [''cognito''], adapter = None, cfg_strategy = None,
                         secret = None, projectId = None,
                         cfg_domain = Some ''process.env.COGNITO_DOMAIN'',
                         clientId = Some ''process.env.COGNITO_CLIENT_ID''\<rparr>,
      ap_implementation = \<lparr>api_filePath = replace_first filePath root [], api_template = content,
                             api_setup = cognito_setup, api_usage = cognito_usage\<rparr>,
      callbacks = None\<rparr>"

definition unknown_provider :: AuthProvider where
  "unknown_provider =
     \<lparr>ap_type = Unknown, ap_name = ''Unknown'',
      configuration = \<lparr>providers = [], adapter = None, cfg_strategy = None, secret = None,
                         projectId = None, cfg_domain = None, clientId = None\<rparr>,
      ap_implementation = \<lparr>api_filePath = [], api_template = [], api_setup = [], api_usage = []\<rparr>,
      callbacks = None\<rparr>"

text \<open>
  The patterns \<open>**/next-auth.{ts,tsx,js}\<close>, \<open>**/[...nextauth]/**/*.{ts,tsx,js}\<close> and
  \<open>**/firebase*.{ts,tsx,js}\<close>.  To the glob library \<open>[...nextauth]\<close> is a bracket
  expression: one character out of \<open>.\<close>, \<open>n\<close>, \<open>e\<close>, \<open>x\<close>, \<open>t\<close>, \<open>a\<close>, \<open>u\<close>, \<open>h\<close>.
\<close>

definition next_auth_named :: "gseg list list" where
  "next_auth_named = with_exts [GlobStar] (map GChar ''next-auth'') [''ts'', ''tsx'', ''js'']"

definition nextauth_route :: "gseg list list" where
  "nextauth_route =
     with_exts [GlobStar, Seg [GSet ''...nextauth''], GlobStar] [GAny] [''ts'', ''tsx'', ''js'']"

definition firebase_named :: "gseg list list" where
  "firebase_named = with_exts [GlobStar] (map GChar ''firebase'' @ [GAny]) [''ts'', ''tsx'', ''js'']"

text \<open>
  \<open>glob.sync(a)[0] || glob.sync(b)[0]\<close> is the first path of the first list that is not
  empty; \<open>existsSync\<close> holds of every path the glob returned, a directory too.  The
  three functions \<open>extractNextAuth\<close>, \<open>extractFirebaseAuth\<close> and \<open>extractCognito\<close> begin by
  reading the file they are given; here they take its text.
\<close>

definition extractAuthProvider :: "repo \<Rightarrow> js_error + AuthProvider" where
  "extractAuthProvider r =
     (case glob_sync next_auth_named r @ glob_sync nextauth_route r of
        (nextAuthPath, e) # _ \<Rightarrow>
          and_then (readFileSync e) (\<lambda>content.
            Inr (extractNextAuth nextAuthPath content (repoPath r)))
      | [] \<Rightarrow>
          and_then (find_reading (\<lambda>content. js_includes content ''firebase/auth'' \<or>
                                             js_includes content ''signInWith'')
                      (glob_sync firebase_named r)) (\<lambda>firebaseAuthPath.
            case firebaseAuthPath of
              Some (file, content) \<Rightarrow> Inr (extractFirebaseAuth file content (repoPath r))
            | None \<Rightarrow>
                and_then (find_reading (\<lambda>content. js_includes content ''cognito'' \<or>
                                                   js_includes content ''COGNITO'')
                            (glob_sync source_files r)) (\<lambda>cognitoPath.
                  case cognitoPath of
                    Some (file, content) \<Rightarrow> Inr (extractCognito file content (repoPath r))
                  | None \<Rightarrow> Inr unknown_provider)))"

section \<open>The session-storage extractor\<close>

datatype session_strategy = Jwt | Database | CookieSession | LocalStorageSession | Hybrid

record SessionStorageConfig =
  ss_type :: string
  ss_httpOnly :: "bool option"
  ss_secure :: "bool option"
  ss_sameSite :: "string option"
  ss_adapter :: "string option"
  ss_maxAge :: "nat option"

record SessionLifetime =
  sl_accessToken :: nat
  sl_session :: "nat option"

record SessionStorageImplementation =
  ssi_filePath :: string
  ssi_template :: string
  ssi_storageLocation :: string

record SessionStorage =
  strategy :: session_strategy
  ss_configuration :: SessionStorageConfig
  ss_lifetime :: SessionLifetime
  ss_implementation :: SessionStorageImplementation

text \<open>
  \<open>/maxAge:\s*(\d+)/\<close> and \<open>/session:\s*async?\s*\([^)]*\)\s*=>\s*\{([\s\S]*?)\}/\<close>
\<close>

definition maxAgeFieldPattern :: rx where
  "maxAgeFieldPattern = seqs [str ''maxAge:'', StarC is_space, Grp 1 (plusC is_digit)]"

definition sessionCallbackPattern :: rx where
  "sessionCallbackPattern =
     seqs [str ''session:'', StarC is_space, str ''asyn'', opt (lit CHR ''c''), StarC is_space,
           lit CHR ''('', StarC (none_of '')''), lit CHR '')'', StarC is_space, str ''=>'',
           StarC is_space, lit CHR ''{'', Grp 1 (LazyC any_char), lit CHR ''}'']"

definition extractSessionTemplate :: "string \<Rightarrow> string" where
  "extractSessionTemplate content =
     (case search sessionCallbackPattern content of
        Some m \<Rightarrow> trim (group m 1)
      | None \<Rightarrow> take 500 content)"

definition cookie_maxAge :: "string \<Rightarrow> nat" where
  "cookie_maxAge content =
     (case search maxAgeFieldPattern content of Some m \<Rightarrow> parseInt (group m 1) | None \<Rightarrow> 3600)"

definition cookie_secure :: "string \<Rightarrow> bool" where
  "cookie_secure content = (if js_includes content ''secure:'' then secure_flag content else True)"

definition cookie_sameSite :: "string \<Rightarrow> string" where
  "cookie_sameSite content =
     (case search sameSitePattern content of
        Some m \<Rightarrow> if group m 1 \<noteq> [] then group m 1 else ''lax''
      | None \<Rightarrow> ''lax'')"

definition extractJWTStrategy :: "string \<Rightarrow> string \<Rightarrow> string \<Rightarrow> SessionStorage" where
  "extractJWTStrategy content filePath root =
     \<lparr>strategy = Jwt,
      ss_configuration = \<lparr>ss_type = ''jwt'',
                            ss_httpOnly = Some (js_includes content ''httpOnly: true''),
                            ss_secure = Some (cookie_secure content),
                            ss_sameSite = Some (cookie_sameSite content),
                            ss_adapter = None, ss_maxAge = None\<rparr>,
      ss_lifetime = \<lparr>sl_accessToken = cookie_maxAge content,
                       sl_session = Some (cookie_maxAge content * 24)\<rparr>,
      ss_implementation = \<lparr>ssi_filePath = replace_first filePath root [],
                             ssi_template = extractSessionTemplate content,
                             ssi_storageLocation = ''httpOnly cookie''\<rparr>\<rparr>"

definition extractDatabaseStrategy :: "string \<Rightarrow> string \<Rightarrow> string \<Rightarrow> SessionStorage" where
  "extractDatabaseStrategy content filePath root =
     \<lparr>strategy = Database,
      ss_configuration = \<lparr>ss_type = ''database'', ss_httpOnly = None, ss_secure = None,
                            ss_sameSite = None,
                            ss_adapter = Some (if js_includes content ''MongoDBAdapter'' then ''mongodb''
                                               else if js_includes content ''FirestoreAdapter'' then ''firestore''
                                               else if js_includes content ''PrismaAdapter'' then ''prisma''
                                               else ''unknown''),
                            ss_maxAge = None\<rparr>,
      ss_lifetime = \<lparr>sl_accessToken = 3600, sl_session = Some 86400\<rparr>,
      ss_implementation = \<lparr>ssi_filePath = replace_first filePath root [],
                             ssi_template = extractSessionTemplate content,
                             ssi_storageLocation = ''database''\<rparr>\<rparr>"

definition extractCookieStorage :: "string \<Rightarrow> string \<Rightarrow> string \<Rightarrow> SessionStorage" where
  "extractCookieStorage filePath content root =
     \<lparr>strategy = CookieSession,
      ss_configuration = \<lparr>ss_type = ''cookie'',
                            ss_httpOnly = Some (js_includes content ''httpOnly: true''),
                            ss_secure = Some (cookie_secure content),
                            ss_sameSite = Some (cookie_sameSite content),
                            ss_adapter = None, ss_maxAge = Some (cookie_maxAge content)\<rparr>,
      ss_lifetime = \<lparr>sl_accessToken = cookie_maxAge content,
                       sl_session = Some (cookie_maxAge content)\<rparr>,
      ss_implementation = \<lparr>ssi_filePath = replace_first filePath root [], ssi_template = content,
                             ssi_storageLocation = ''httpOnly cookie''\<rparr>\<rparr>"

definition extractLocalStorage :: "string \<Rightarrow> string \<Rightarrow> string \<Rightarrow> SessionStorage" where
  "extractLocalStorage filePath content root =
     \<lparr>strategy = LocalStorageSession,
      ss_configuration = \<lparr>ss_type = ''localStorage'', ss_httpOnly = None, ss_secure = None,
                            ss_sameSite = None, ss_adapter = None, ss_maxAge = None\<rparr>,
      ss_lifetime = \<lparr>sl_accessToken = 3600, sl_session = Some 86400\<rparr>,
      ss_implementation = \<lparr>ssi_filePath = replace_first filePath root [], ssi_template = content,
                             ssi_storageLocation = ''localStorage''\<rparr>\<rparr>"

definition default_session :: SessionStorage where
  "default_session =
     \<lparr>strategy = Jwt,
      ss_configuration = \<lparr>ss_type = ''jwt'', ss_httpOnly = Some True, ss_secure = Some True,
                            ss_sameSite = Some ''lax'', ss_adapter = None, ss_maxAge = None\<rparr>,
      ss_lifetime = \<lparr>sl_accessToken = 3600, sl_session = Some 86400\<rparr>,
      ss_implementation = \<lparr>ssi_filePath = [], ssi_template = [],
                             ssi_storageLocation = ''httpOnly cookie''\<rparr>\<rparr>"

text \<open>\<open>**/*next-auth*.{ts,tsx,js}\<close>\<close>

definition next_auth_like :: "gseg list list" where
  "next_auth_like =
     with_exts [GlobStar] (GAny # map GChar ''next-auth'' @ [GAny]) [''ts'', ''tsx'', ''js'']"

text \<open>
  The loop over the NextAuth files: each file is read in its turn, and the first that
  names a strategy decides.
\<close>

fun nextauth_session ::
  "string \<Rightarrow> (string \<times> entry) list \<Rightarrow> js_error + SessionStorage option" where
  "nextauth_session root [] = Inr None"
| "nextauth_session root ((file, e) # fs) =
     and_then (readFileSync e) (\<lambda>content.
       if js_includes content (dquoted ''strategy: '' ''jwt'') \<or>
          js_includes content (squoted ''strategy: '' ''jwt'')
       then Inr (Some (extractJWTStrategy content file root))
       else if js_includes content (dquoted ''strategy: '' ''database'') \<or>
               js_includes content (squoted ''strategy: '' ''database'')
       then Inr (Some (extractDatabaseStrategy content file root))
       else nextauth_session root fs)"

text \<open>
  \<open>extractCookieStorage\<close> and \<open>extractLocalStorage\<close> begin by reading the file they are
  given, which the filter before has read; here they take its text.
\<close>

definition extractSessionStorage :: "repo \<Rightarrow> js_error + SessionStorage" where
  "extractSessionStorage r =
     and_then (nextauth_session (repoPath r) (glob_sync next_auth_like r)) (\<lambda>decided.
       case decided of
         Some result \<Rightarrow> Inr result
       | None \<Rightarrow>
           and_then (filter_reading
                       (\<lambda>content. js_includes content ''Set-Cookie'' \<or>
                                   js_includes content ''cookies.set'' \<or>
                                   js_includes content ''serialize'')
                       (glob_sync source_files r)) (\<lambda>cookieFiles.
             case cookieFiles of
               (file, content) # _ \<Rightarrow> Inr (extractCookieStorage file content (repoPath r))
             | [] \<Rightarrow>
                 and_then (filter_reading
                             (\<lambda>content. js_includes content ''localStorage.setItem'' \<and>
                                         (js_includes content ''token'' \<or>
                                          js_includes content ''session'' \<or>
                                          js_includes content ''user''))
                             (glob_sync source_files r)) (\<lambda>localStorageFiles.
                   case localStorageFiles of
                     (file, content) # _ \<Rightarrow> Inr (extractLocalStorage file content (repoPath r))
                   | [] \<Rightarrow> Inr default_session)))"

section \<open>The permission-check extractor\<close>

text \<open>
  The repository holds the extractor twice: \<open>src/lib/extractor/permission-check-extractor.ts\<close>,
  which \<open>extractor.ts\<close> beside it imports, and a later, extended text of the same module.
  The functions of the extended text carry the suffix \<open>_ext\<close>.
\<close>

datatype protection_kind = AuthProtection | RoleProtection | PermissionProtection | CustomProtection

record MiddlewarePattern =
  mw_name :: string
  mw_type :: string
  mw_filePath :: string
  mw_template :: string
  mw_location :: string
  mw_checks :: "string list"

record ProtectedRoute =
  path :: string
  protection :: protection_kind
  requiredRole :: "string option"
  requiredPermission :: "string option"
  pr_implementation :: string

record APIGuard =
  endpoint :: string
  ag_method :: string
  ag_protection :: protection_kind
  ag_middleware :: "string option"
  ag_filePath :: string
  ag_template :: string

record ComponentGuard =
  component :: string
  cg_protection :: protection_kind
  cg_requiredRole :: "string option"
  cg_requiredPermission :: "string option"
  cg_filePath :: string
  cg_template :: string

record PermissionChecks =
  middleware :: "MiddlewarePattern list"
  protectedRoutes :: "ProtectedRoute list"
  apiGuards :: "APIGuard list"
  componentGuards :: "ComponentGuard list option"

text \<open>
  \<open>/(?:export\s+)?(?:async\s+)?(?:function\s+)?middleware\s*\([^)]*\)\s*\{([\s\S]*?)\}/\<close>
\<close>

definition middlewarePattern :: rx where
  "middlewarePattern =
     seqs [opt (Seq (str ''export'') (plusC is_space)), opt (Seq (str ''async'') (plusC is_space)),
           opt (Seq (str ''function'') (plusC is_space)), str ''middleware'', StarC is_space,
           lit CHR ''('', StarC (none_of '')''), lit CHR '')'', StarC is_space,
           lit CHR ''{'', Grp 1 (LazyC any_char), lit CHR ''}'']"

definition extractMiddlewarePattern :: "string \<Rightarrow> string \<Rightarrow> string \<Rightarrow> MiddlewarePattern option" where
  "extractMiddlewarePattern content filePath root =
     (case search middlewarePattern content of
        None \<Rightarrow> None
      | Some m \<Rightarrow>
          Some \<lparr>mw_name = ''middleware'', mw_type = ''global'',
                mw_filePath = replace_first filePath root [],
                mw_template = trim (group m 1),
                mw_location = ''middleware.ts'',
                mw_checks =
                  (if js_includes content ''authMiddleware'' then [''auth''] else []) @
                  (if js_includes content ''verifyToken'' then [''token''] else []) @
                  (if js_includes content ''checkRole'' then [''role''] else []) @
                  (if js_includes content ''checkPermission'' then [''permission''] else [])\<rparr>)"

text \<open>
  \<open>/api\/([^/]+)\/route/\<close>, its extended form \<open>/api\/([^/]+(?:\/[^/]+)*)\/route/\<close>, and
  \<open>/api\/(.+?)(?:\/route|$)/\<close>; without the flag \<open>s\<close> a dot is any character but a line end.
\<close>

definition not_newline :: "char \<Rightarrow> bool" where
  "not_newline c = (c \<noteq> CHR 0x0A \<and> c \<noteq> CHR 0x0D)"

definition apiRoutePattern :: rx where
  "apiRoutePattern = seqs [str ''api/'', Grp 1 (plusC (none_of ''/'')), str ''/route'']"

definition apiRoutePattern_ext :: rx where
  "apiRoutePattern_ext =
     seqs [str ''api/'',
           Grp 1 (Seq (plusC (none_of ''/'')) (Star (Seq (lit CHR ''/'') (plusC (none_of ''/''))))),
           str ''/route'']"

definition apiNestedPattern :: rx where
  "apiNestedPattern =
     seqs [str ''api/'', Grp 1 (Seq (Cls not_newline) (LazyC not_newline)),
           Alt (str ''/route'') Eol]"

text \<open>
  \<open>/(?:const|await)\s+(\w+)\s*=\s*(?:await\s+)?(\w+Middleware|authMiddleware|verifyToken)/\<close>,
  \<open>/role\s*[=!]==\s*["'](\w+)["']/\<close>, \<open>/permission\s*[=!]==\s*["'](\w+)["']/\<close> and
  \<open>/(?:export\s+)?(?:default\s+)?(?:function|const)\s+(\w+)/\<close>
\<close>

definition middlewareCallPattern :: rx where
  "middlewareCallPattern =
     seqs [alts [''const'', ''await''], plusC is_space, Grp 1 (plusC is_word), StarC is_space,
           lit CHR ''='', StarC is_space, opt (Seq (str ''await'') (plusC is_space)),
           Grp 2 (Alt (Seq (plusC is_word) (str ''Middleware''))
                      (alts [''authMiddleware'', ''verifyToken'']))]"

definition equalityPattern :: "string \<Rightarrow> rx" where
  "equalityPattern subject =
     seqs [str subject, StarC is_space, Cls (one_of ''=!''), str ''=='', StarC is_space,
           Cls quote, Grp 1 (plusC is_word), Cls quote]"

definition componentPattern :: rx where
  "componentPattern =
     seqs [opt (Seq (str ''export'') (plusC is_space)), opt (Seq (str ''default'') (plusC is_space)),
           alts [''function'', ''const''], plusC is_space, Grp 1 (plusC is_word)]"

text \<open>\<open>content.match(re)?.[1]\<close> when the match is there.\<close>

definition first_group :: "rx \<Rightarrow> string \<Rightarrow> string option" where
  "first_group re s = (case search re s of Some m \<Rightarrow> Some (group m 1) | None \<Rightarrow> None)"

definition http_method :: "string \<Rightarrow> string" where
  "http_method content =
     (if js_includes content ''export async function GET'' then ''GET''
      else if js_includes content ''export async function POST'' then ''POST''
      else if js_includes content ''export async function PUT'' then ''PUT''
      else if js_includes content ''export async function PATCH'' then ''PATCH''
      else if js_includes content ''export async function DELETE'' then ''DELETE''
      else ''GET'')"

subsection \<open>\<open>src/lib/extractor/permission-check-extractor.ts\<close>\<close>

definition api_protection :: "string \<Rightarrow> protection_kind" where
  "api_protection content =
     (if js_includes content ''checkRole'' \<or> js_includes content ''role'' then RoleProtection
      else if js_includes content ''checkPermission'' \<or> js_includes content ''permission''
      then PermissionProtection
      else if js_includes content ''authMiddleware'' \<or> js_includes content ''verifyToken''
      then AuthProtection
      else CustomProtection)"

definition api_endpoint :: "string \<Rightarrow> string \<Rightarrow> string" where
  "api_endpoint filePath root =
     (case search apiRoutePattern filePath of
        Some m \<Rightarrow> ''/api/'' @ group m 1
      | None \<Rightarrow> replace_first filePath root [])"

definition extractAPIGuard :: "string \<Rightarrow> string \<Rightarrow> string \<Rightarrow> APIGuard" where
  "extractAPIGuard content filePath root =
     \<lparr>endpoint = api_endpoint filePath root,
      ag_method = http_method content,
      ag_protection = api_protection content,
      ag_middleware = (case search middlewareCallPattern content of
                         Some m \<Rightarrow> Some (group m 2) | None \<Rightarrow> None),
      ag_filePath = replace_first filePath root [],
      ag_template = take 500 content\<rparr>"

definition extractProtectedRoute :: "string \<Rightarrow> string \<Rightarrow> string \<Rightarrow> ProtectedRoute" where
  "extractProtectedRoute content filePath root =
     \<lparr>path = api_endpoint filePath root,
      protection = api_protection content,
      requiredRole = (if api_protection content = RoleProtection
                      then first_group (equalityPattern ''role'') content else None),
      requiredPermission = (if api_protection content = PermissionProtection
                            then first_group (equalityPattern ''permission'') content else None),
      pr_implementation = take 500 content\<rparr>"

definition extractComponentGuard :: "string \<Rightarrow> string \<Rightarrow> string \<Rightarrow> ComponentGuard" where
  "extractComponentGuard content filePath root =
     (let kind =
            (if js_includes content ''role'' \<and>
                (js_includes content ''==='' \<or> js_includes content ''!=='') then RoleProtection
             else if js_includes content ''permission'' \<and>
                     (js_includes content ''==='' \<or> js_includes content ''!=='')
             then PermissionProtection
             else AuthProtection)
      in \<lparr>component = (case first_group componentPattern content of
                          Some n \<Rightarrow> n | None \<Rightarrow> ''Component''),
           cg_protection = kind,
           cg_requiredRole = (if kind = RoleProtection
                              then first_group (equalityPattern ''role'') content else None),
           cg_requiredPermission = (if kind = PermissionProtection
                                    then first_group (equalityPattern ''permission'') content
                                    else None),
           cg_filePath = replace_first filePath root [],
           cg_template = take 500 content\<rparr>)"

text \<open>
  \<open>**/*middleware*.{ts,tsx,js}\<close> followed by \<open>**/middleware.{ts,tsx,js}\<close>,
  \<open>**/api/**/*.{ts,tsx,js}\<close> and \<open>**/*.{tsx,jsx}\<close>
\<close>

definition middleware_like :: "gseg list list" where
  "middleware_like =
     with_exts [GlobStar] (GAny # map GChar ''middleware'' @ [GAny]) [''ts'', ''tsx'', ''js'']"

definition middleware_named :: "gseg list list" where
  "middleware_named = with_exts [GlobStar] (map GChar ''middleware'') [''ts'', ''tsx'', ''js'']"

definition api_files :: "gseg list list" where
  "api_files =
     with_exts [GlobStar, Seg (map GChar ''api''), GlobStar] [GAny] [''ts'', ''tsx'', ''js'']"

definition component_files :: "gseg list list" where
  "component_files = with_exts [GlobStar] [GAny] [''tsx'', ''jsx'']"

definition middlewareFiles :: "repo \<Rightarrow> (string \<times> entry) list" where
  "middlewareFiles r = glob_sync middleware_like r @ glob_sync middleware_named r"

definition apiRouteFiles :: "repo \<Rightarrow> (string \<times> entry) list" where
  "apiRouteFiles r =
     filter (\<lambda>(file, e). \<not> js_includes file ''node_modules'') (glob_sync api_files r)"

text \<open>The loop over \<open>middlewareFiles\<close>.\<close>

definition extract_middleware :: "repo \<Rightarrow> js_error + MiddlewarePattern list" where
  "extract_middleware r =
     and_then (read_each (middlewareFiles r)) (\<lambda>read.
       Inr (concat (map (\<lambda>(file, content).
                           case extractMiddlewarePattern content file (repoPath r) of
                             Some p \<Rightarrow> [p] | None \<Rightarrow> [])
                        read)))"

text \<open>The test that makes an API file a protected route.\<close>

definition is_protected :: "string \<Rightarrow> bool" where
  "is_protected content =
     (js_includes content ''authMiddleware'' \<or> js_includes content ''requireAuth'' \<or>
      js_includes content ''checkAuth'' \<or> js_includes content ''verifyToken'' \<or>
      js_includes content ''unauthorized'' \<or> js_includes content ''Unauthorized'')"

definition optional_list :: "'a list \<Rightarrow> 'a list option" where
  "optional_list xs = (if length xs > 0 then Some xs else None)"

text \<open>
  The four lists are filled by loops that follow one another: over the middleware
  files, over the API route files (each is read, and those that pass the test add a
  guard and a route), and over the first ten component files that the filter kept.
\<close>

definition extractPermissionChecks :: "repo \<Rightarrow> js_error + PermissionChecks" where
  "extractPermissionChecks r =
     and_then (extract_middleware r) (\<lambda>patterns.
     and_then (read_each (apiRouteFiles r)) (\<lambda>apiRoutes.
     and_then (filter_reading
                 (\<lambda>content. js_includes content ''useAuth'' \<or> js_includes content ''useSession'' \<or>
                             js_includes content ''isAuthenticated'' \<or>
                             js_includes content ''requireAuth'')
                 (glob_sync component_files r)) (\<lambda>componentFiles.
       let protectedFiles = filter (\<lambda>(file, content). is_protected content) apiRoutes
       in Inr \<lparr>middleware = patterns,
                protectedRoutes =
                  map (\<lambda>(file, content). extractProtectedRoute content file (repoPath r))
                      protectedFiles,
                apiGuards =
                  map (\<lambda>(file, content). extractAPIGuard content file (repoPath r)) protectedFiles,
                componentGuards =
                  optional_list
                    (map (\<lambda>(file, content). extractComponentGuard content file (repoPath r))
                         (take 10 componentFiles))\<rparr>)))"

subsection \<open>The extended text\<close>

definition cookie_read :: "string \<Rightarrow> bool" where
  "cookie_read content =
     (js_includes content ''cookies.get'' \<and>
      (js_includes content ''it'' \<or> js_includes content ''idToken'' \<or> js_includes content ''at''))"

definition api_protection_ext :: "string \<Rightarrow> protection_kind" where
  "api_protection_ext content =
     (if js_includes content ''checkRole'' \<or> js_includes content ''role'' \<or>
         js_includes content ''admin'' then RoleProtection
      else if js_includes content ''checkPermission'' \<or> js_includes content ''permission''
      then PermissionProtection
      else if js_includes content ''authMiddleware'' \<or> js_includes content ''verifyToken'' \<or>
              cookie_read content \<or>
              js_includes content ''No authentication token'' \<or>
              js_includes content ''Authentication required'' \<or>
              js_includes content ''status: 401''
      then AuthProtection
      else CustomProtection)"

definition api_endpoint_ext :: "string \<Rightarrow> string \<Rightarrow> string" where
  "api_endpoint_ext filePath root =
     (let endpoint = (case search apiRoutePattern_ext filePath of
                        Some m \<Rightarrow> ''/api/'' @ group m 1
                      | None \<Rightarrow> replace_first filePath root [])
      in if starts_with endpoint ''/api/'' then endpoint
         else (case search apiNestedPattern filePath of
                 Some m \<Rightarrow> ''/api/'' @ group m 1
               | None \<Rightarrow> endpoint))"

definition extractAPIGuard_ext :: "string \<Rightarrow> string \<Rightarrow> string \<Rightarrow> APIGuard" where
  "extractAPIGuard_ext content filePath root =
     \<lparr>endpoint = api_endpoint_ext filePath root,
      ag_method = http_method content,
      ag_protection = api_protection_ext content,
      ag_middleware =
        (case search middlewareCallPattern content of
           Some m \<Rightarrow> Some (group m 2)
         | None \<Rightarrow>
             if js_includes content ''cookies.get'' then Some ''cookie-based-auth''
             else if js_includes content ''JWT'' \<or> js_includes content ''jwt''
             then Some ''jwt-verification''
             else None),
      ag_filePath = replace_first filePath root [],
      ag_template = take 500 content\<rparr>"

definition extractProtectedRoute_ext :: "string \<Rightarrow> string \<Rightarrow> string \<Rightarrow> ProtectedRoute" where
  "extractProtectedRoute_ext content filePath root =
     \<lparr>path = api_endpoint_ext filePath root,
      protection = api_protection_ext content,
      requiredRole = (if api_protection_ext content = RoleProtection
                      then first_group (equalityPattern ''role'') content else None),
      requiredPermission = (if api_protection_ext content = PermissionProtection
                            then first_group (equalityPattern ''permission'') content else None),
      pr_implementation = take 500 content\<rparr>"

text \<open>The sign of a redirect to the login page.\<close>

definition login_redirect :: "string \<Rightarrow> bool" where
  "login_redirect content =
     (js_includes content ''router'' \<and> js_includes content ''push'' \<and>
      (js_includes content ''signin'' \<or> js_includes content ''login''))"

definition extractComponentGuard_ext :: "string \<Rightarrow> string \<Rightarrow> string \<Rightarrow> ComponentGuard" where
  "extractComponentGuard_ext content filePath root =
     (let kind =
            (if js_includes content ''role'' \<and>
                (js_includes content ''==='' \<or> js_includes content ''!=='') then RoleProtection
             else if js_includes content ''permission'' \<and>
                     (js_includes content ''==='' \<or> js_includes content ''!=='')
             then PermissionProtection
             else AuthProtection)
      in \<lparr>component = (case first_group componentPattern content of
                          Some n \<Rightarrow> n | None \<Rightarrow> ''Component''),
           cg_protection = kind,
           cg_requiredRole = (if kind = RoleProtection
                              then first_group (equalityPattern ''role'') content else None),
           cg_requiredPermission = (if kind = PermissionProtection
                                    then first_group (equalityPattern ''permission'') content
                                    else None),
           cg_filePath = replace_first filePath root [],
           cg_template = take 500 content\<rparr>)"

text \<open>\<open>/app\/(.+?)(?:\/page|$)/\<close> and \<open>/pages\/(.+?)(?:\/index|$)/\<close>\<close>

definition appPagePattern :: rx where
  "appPagePattern =
     seqs [str ''app/'', Grp 1 (Seq (Cls not_newline) (LazyC not_newline)),
           Alt (str ''/page'') Eol]"

definition pagesPattern :: rx where
  "pagesPattern =
     seqs [str ''pages/'', Grp 1 (Seq (Cls not_newline) (LazyC not_newline)),
           Alt (str ''/index'') Eol]"

definition page_route :: "string \<Rightarrow> string" where
  "page_route rel =
     (if js_includes rel ''/app/'' then
        (case search appPagePattern rel of Some m \<Rightarrow> ''/'' @ group m 1 | None \<Rightarrow> rel)
      else if js_includes rel ''/pages/'' then
        (case search pagesPattern rel of Some m \<Rightarrow> ''/'' @ group m 1 | None \<Rightarrow> rel)
      else rel)"

definition extractPageRouteProtection :: "string \<Rightarrow> string \<Rightarrow> string \<Rightarrow> ProtectedRoute" where
  "extractPageRouteProtection content filePath root =
     (let kind =
            (if js_includes content ''useAuth'' \<or> js_includes content ''isAuthenticated'' \<or>
                login_redirect content then AuthProtection
             else if js_includes content ''role'' then RoleProtection
             else if js_includes content ''permission'' then PermissionProtection
             else CustomProtection)
      in \<lparr>path = page_route (replace_first filePath root []),
           protection = kind,
           requiredRole = (if kind = RoleProtection
                           then first_group (equalityPattern ''role'') content else None),
           requiredPermission = (if kind = PermissionProtection
                                 then first_group (equalityPattern ''permission'') content else None),
           pr_implementation = take 500 content\<rparr>)"

text \<open>\<open>**/app/**/page.{tsx,jsx}\<close> followed by \<open>**/pages/**/*.{tsx,jsx}\<close>\<close>

definition app_pages :: "gseg list list" where
  "app_pages =
     with_exts [GlobStar, Seg (map GChar ''app''), GlobStar] (map GChar ''page'') [''tsx'', ''jsx'']"

definition pages_files :: "gseg list list" where
  "pages_files = with_exts [GlobStar, Seg (map GChar ''pages''), GlobStar] [GAny] [''tsx'', ''jsx'']"

definition is_protected_ext :: "string \<Rightarrow> bool" where
  "is_protected_ext content =
     (js_includes content ''authMiddleware'' \<or> js_includes content ''requireAuth'' \<or>
      js_includes content ''checkAuth'' \<or> js_includes content ''verifyToken'' \<or>
      js_includes content ''unauthorized'' \<or> js_includes content ''Unauthorized'' \<or>
      js_includes content ''cookies.get'' \<and>
        (js_includes content ''it'' \<or> js_includes content ''idToken'' \<or>
         js_includes content ''access_token'' \<or> js_includes content ''at'') \<or>
      js_includes content ''status: 401'' \<or> js_includes content ''status:401'' \<or>
      js_includes content ''statusCode: 401'' \<or>
      js_includes content ''No authentication token'' \<or>
      js_includes content ''Authentication required'' \<or>
      js_includes content ''JWT'' \<or> js_includes content ''jwt'' \<or>
      js_includes content ''idToken'' \<or> js_includes content ''id_token'')"

definition extractPermissionChecks_ext :: "repo \<Rightarrow> js_error + PermissionChecks" where
  "extractPermissionChecks_ext r =
     and_then (extract_middleware r) (\<lambda>patterns.
     and_then (read_each (apiRouteFiles r)) (\<lambda>apiRoutes.
     and_then (filter_reading
                 (\<lambda>content. js_includes content ''useAuth'' \<or> js_includes content ''useSession'' \<or>
                             js_includes content ''isAuthenticated'' \<or>
                             js_includes content ''requireAuth'' \<or>
                             js_includes content ''checkAuth'' \<or>
                             js_includes content ''router.push'' \<and>
                               (js_includes content ''signin'' \<or> js_includes content ''login'') \<or>
                             js_includes content ''useRouter'' \<and> js_includes content ''push'')
                 (glob_sync component_files r)) (\<lambda>componentFiles.
     and_then (filter_reading
                 (\<lambda>content. js_includes content ''useAuth'' \<or>
                             js_includes content ''isAuthenticated'' \<or> login_redirect content)
                 (glob_sync app_pages r @ glob_sync pages_files r)) (\<lambda>pageFiles.
       let protectedFiles = filter (\<lambda>(file, content). is_protected_ext content) apiRoutes
       in Inr \<lparr>middleware = patterns,
                protectedRoutes =
                  map (\<lambda>(file, content). extractProtectedRoute_ext content file (repoPath r))
                      protectedFiles @
                  map (\<lambda>(file, content). extractPageRouteProtection content file (repoPath r))
                      (take 10 pageFiles),
                apiGuards =
                  map (\<lambda>(file, content). extractAPIGuard_ext content file (repoPath r))
                      protectedFiles,
                componentGuards =
                  optional_list
                    (map (\<lambda>(file, content). extractComponentGuard_ext content file (repoPath r))
                         (take 20 componentFiles))\<rparr>))))"

section \<open>The assembled record\<close>

record Metadata =
  projectName :: string
  framework :: string
  sourcePath :: string

record Utilities =
  authHelpers :: "string list"
  commonHooks :: "string list"
  authFunctions :: "string list"

text \<open>
  The record, but for the time stamp \<open>extractedAt\<close> and the three lists of instructions,
  which are texts filled in from the fields below.
\<close>

record AuthMemory =
  metadata :: Metadata
  authProvider :: AuthProvider
  sessionStorage :: SessionStorage
  tokenStrategy :: TokenStrategy
  roleModel :: RoleModel
  permissionChecks :: PermissionChecks
  utilities :: Utilities

text \<open>
  \<open>existsSync(join(repoPath, name))\<close> for each name of a list, in its order; it holds of
  a directory as of a file.
\<close>

definition existing :: "repo \<Rightarrow> string list \<Rightarrow> string list" where
  "existing r names = filter (\<lambda>n. n \<in> set (map fst (entries r))) names"

definition extractAuthHelpers :: "repo \<Rightarrow> string list" where
  "extractAuthHelpers r =
     existing r [''libs/auth.ts'', ''lib/auth.ts'', ''utils/auth.ts'', ''helpers/auth.ts'',
                 ''libs/middleware.ts'', ''lib/middleware.ts'']"

definition extractCommonHooks :: "repo \<Rightarrow> string list" where
  "extractCommonHooks r =
     existing r [''hooks/useAuth.ts'', ''hooks/useAuth.tsx'', ''contexts/AuthContext.tsx'',
                 ''context/AuthContext.tsx'']"

definition extractAuthFunctions :: "repo \<Rightarrow> string list" where
  "extractAuthFunctions r =
     existing r [''libs/next-auth.ts'', ''lib/next-auth.ts'', ''libs/firebase.ts'',
                 ''lib/firebase.ts'']"

definition detect_framework :: "string list \<Rightarrow> string" where
  "detect_framework dependencies =
     (if ''next'' \<in> set dependencies then ''nextjs''
      else if ''react'' \<in> set dependencies then ''react''
      else if ''express'' \<in> set dependencies then ''express''
      else ''unknown'')"

text \<open>\<open>repoPath.split('/').pop() || 'unknown'\<close>\<close>

definition project_name :: "string \<Rightarrow> string" where
  "project_name p = (if last (split_on CHR ''/'' p) = [] then ''unknown'' else last (split_on CHR ''/'' p))"

text \<open>
  The detection of the framework: \<open>package.json\<close> is read and parsed when something is
  at its path, with no handler around either step.
\<close>

definition read_framework :: "repo \<Rightarrow> js_error + string" where
  "read_framework r =
     (case packageJson r of
        None \<Rightarrow> Inr ''unknown''
      | Some ManifestDirectory \<Rightarrow> Inl EISDIR
      | Some Malformed \<Rightarrow> Inl SyntaxError
      | Some JsonNull \<Rightarrow> Inl TypeError
      | Some (JsonValue dependencies) \<Rightarrow> Inr (detect_framework dependencies))"

text \<open>
  \<open>extractAuthSystem\<close>, for either text of the permission-check extractor it may be
  linked with.  The five extractors run one after the other, and none of their calls is
  inside a handler.
\<close>

definition extract_with ::
  "(repo \<Rightarrow> js_error + PermissionChecks) \<Rightarrow> repo \<Rightarrow> js_error + AuthMemory" where
  "extract_with checks r =
     (if \<not> present r then Inl (Error (''Repository path does not exist: '' @ repoPath r))
      else
        and_then (read_framework r) (\<lambda>fw.
        and_then (extractAuthProvider r) (\<lambda>provider.
        and_then (extractSessionStorage r) (\<lambda>session.
        and_then (extractTokenStrategy r) (\<lambda>tokens.
        and_then (extractRoleModel r) (\<lambda>roles.
        and_then (checks r) (\<lambda>checked.
          Inr \<lparr>metadata = \<lparr>projectName = project_name (repoPath r), framework = fw,
                            sourcePath = repoPath r\<rparr>,
               authProvider = provider,
               sessionStorage = session,
               tokenStrategy = tokens,
               roleModel = roles,
               permissionChecks = checked,
               utilities = \<lparr>authHelpers = extractAuthHelpers r,
                             commonHooks = extractCommonHooks r,
                             authFunctions = extractAuthFunctions r\<rparr>\<rparr>)))))))"

definition extractAuthSystem :: "repo \<Rightarrow> js_error + AuthMemory" where
  "extractAuthSystem = extract_with extractPermissionChecks"

definition extractAuthSystem_ext :: "repo \<Rightarrow> js_error + AuthMemory" where
  "extractAuthSystem_ext = extract_with extractPermissionChecks_ext"

text \<open>
  The lookups of the generated file, which holds the record as its constant
  \<open>AuthMemory\<close>.
\<close>

definition isProtectedRoute :: "AuthMemory \<Rightarrow> string \<Rightarrow> bool" where
  "isProtectedRoute am p =
     list_ex (\<lambda>route. path route = p) (protectedRoutes (permissionChecks am))"

definition getRequiredRole :: "AuthMemory \<Rightarrow> string \<Rightarrow> string option" where
  "getRequiredRole am p =
     (case find (\<lambda>r. path r = p) (protectedRoutes (permissionChecks am)) of
        Some route \<Rightarrow> requiredRole route
      | None \<Rightarrow> None)"

definition getRequiredPermission :: "AuthMemory \<Rightarrow> string \<Rightarrow> string option" where
  "getRequiredPermission am p =
     (case find (\<lambda>r. path r = p) (protectedRoutes (permissionChecks am)) of
        Some route \<Rightarrow> requiredPermission route
      | None \<Rightarrow> None)"

text \<open>
  The candidate facts the loop gathers, file after file, before the lists are
  deduplicated; and the distinct elements of a list in the order of their first
  occurrence.
\<close>

fun first_seen :: "'a list \<Rightarrow> 'a list" where
  "first_seen [] = []"
| "first_seen (x # xs) = x # filter (\<lambda>y. y \<noteq> x) (first_seen xs)"

definition role_candidates :: "repo \<Rightarrow> RoleDefinition list" where
  "role_candidates r =
     (case roleFiles r of
        Inr files \<Rightarrow> concat (map (\<lambda>(path, content). extractRoles content) files)
      | Inl err \<Rightarrow> [])"

definition permission_candidates :: "repo \<Rightarrow> PermissionDefinition list" where
  "permission_candidates r =
     (case roleFiles r of
        Inr files \<Rightarrow> concat (map (\<lambda>(path, content). extractPermissions content) files)
      | Inl err \<Rightarrow> [])"


section \<open>Acquisition of a remote repository\<close>

text \<open>
  What the request handler meets outside: whether \<open>git clone\<close> succeeds, what the hosting
  API answers about the default branch, what \<open>fetch\<close> brings for a URL, and whether the
  archive library extracts a payload (\<open>None\<close>) or throws (its message).  A URL is
  answered the same way each time it is fetched within one request.
\<close>

type_synonym byte = "8 word"

datatype fetched =
    Rejected string
  | NotOk nat string
  | Payload "byte list"

text \<open>
  \<open>Rejected msg\<close>: \<open>fetch\<close> or the reading of the body throws.  \<open>NotOk status statusText\<close>:
  a response whose \<open>ok\<close> is false.  \<open>Payload bytes\<close>: the body of a response whose \<open>ok\<close> is
  true.
\<close>

datatype branch_info = Unreachable | Refused | Info "string option"

record world =
  clone_succeeds :: bool
  branch_reply :: branch_info
  fetch :: "string \<Rightarrow> fetched"
  unzip :: "byte list \<Rightarrow> string option"

text \<open>\<open>/^https:\/\/github\.com\/([\w\-\.]+)\/([\w\-\.]+)(?:\.git)?$/\<close>\<close>

definition name_char :: "char \<Rightarrow> bool" where
  "name_char c = (is_word c \<or> c = CHR ''-'' \<or> c = CHR ''.'')"

definition githubRegex :: rx where
  "githubRegex =
     seqs [Bol, str ''https://github.com/'', Grp 1 (plusC name_char), lit CHR ''/'',
           Grp 2 (plusC name_char), opt (str ''.git''), Eol]"

text \<open>A number in a template literal.\<close>

function show_nat :: "nat \<Rightarrow> string" where
  "show_nat n =
     (if n < 10 then [''0123456789'' ! n] else show_nat (n div 10) @ [''0123456789'' ! (n mod 10)])"
  by pat_completeness auto
termination
  by (relation "measure id") auto

declare show_nat.simps [simp del]

text \<open>\<open>xs.join(sep)\<close>\<close>

fun join :: "string \<Rightarrow> string list \<Rightarrow> string" where
  "join sep [] = []"
| "join sep [x] = x"
| "join sep (x # y # ys) = x @ sep @ join sep (y # ys)"

text \<open>\<open>Array.from(new Set(xs))\<close>: a value is added once, where it first occurs.\<close>

definition set_add :: "'a list \<Rightarrow> 'a \<Rightarrow> 'a list" where
  "set_add s x = (if x \<in> set s then s else s @ [x])"

definition new_Set :: "'a list \<Rightarrow> 'a list" where
  "new_Set xs = foldl set_add [] xs"

definition urlFormats :: "string \<Rightarrow> string \<Rightarrow> string \<Rightarrow> string list" where
  "urlFormats owner repo branch =
     [''https://github.com/'' @ owner @ ''/'' @ repo @ ''/archive/'' @ branch @ ''.zip'',
      ''https://api.github.com/repos/'' @ owner @ ''/'' @ repo @ ''/zipball/'' @ branch,
      ''https://github.com/'' @ owner @ ''/'' @ repo @ ''/archive/refs/heads/'' @ branch @ ''.zip'']"

text \<open>\<open>firstBytes[0] === 0x50 && firstBytes[1] === 0x4B\<close>\<close>

definition isZipFile :: "byte list \<Rightarrow> bool" where
  "isZipFile bytes = (case bytes of b0 # b1 # _ \<Rightarrow> b0 = 0x50 \<and> b1 = 0x4B | _ \<Rightarrow> False)"

text \<open>
  The body of the loop over the URL formats, for one URL: the archive is extracted, or
  the error text that is pushed before the loop goes on.
\<close>

datatype outcome = Extracted | Failed string

definition try_url :: "world \<Rightarrow> string \<Rightarrow> string \<Rightarrow> outcome" where
  "try_url w branch zipUrl =
     (let label = ''Branch '' @ branch @ '' ('' @ zipUrl @ ''): ''
      in case fetch w zipUrl of
           Rejected msg \<Rightarrow> Failed (label @ msg)
         | NotOk status statusText \<Rightarrow> Failed (label @ show_nat status @ '' '' @ statusText)
         | Payload bytes \<Rightarrow>
             if length bytes = 0 then Failed (label @ ''Downloaded file is empty'')
             else if \<not> isZipFile bytes then Failed (label @ ''Response is not a zip file'')
             else (case unzip w bytes of
                     Some msg \<Rightarrow> Failed (label @ msg)
                   | None \<Rightarrow> Extracted))"

text \<open>
  The two loops.  Each returns the URLs it fetched, in order, the errors it pushed, and
  the flag it leaves (\<open>branchDownloaded\<close>, \<open>downloaded\<close>).
\<close>

fun try_formats :: "world \<Rightarrow> string \<Rightarrow> string list \<Rightarrow> string list \<times> string list \<times> bool" where
  "try_formats w branch [] = ([], [], False)"
| "try_formats w branch (zipUrl # urls) =
     (case try_url w branch zipUrl of
        Extracted \<Rightarrow> ([zipUrl], [], True)
      | Failed e \<Rightarrow>
          (case try_formats w branch urls of
             (fetched, errors, branchDownloaded) \<Rightarrow> (zipUrl # fetched, e # errors, branchDownloaded)))"

fun try_branches ::
  "world \<Rightarrow> string \<Rightarrow> string \<Rightarrow> string list \<Rightarrow> string list \<times> string list \<times> bool" where
  "try_branches w owner repo [] = ([], [], False)"
| "try_branches w owner repo (branch # branches) =
     (case try_formats w branch (urlFormats owner repo branch) of
        (fetched, errors, branchDownloaded) \<Rightarrow>
          if branchDownloaded then (fetched, errors, True)
          else (case try_branches w owner repo branches of
                  (fetched', errors', downloaded) \<Rightarrow>
                    (fetched @ fetched', errors @ errors', downloaded)))"

datatype acquired = Cloned | Downloaded

definition download_repo ::
  "world \<Rightarrow> string \<Rightarrow> string \<Rightarrow> string \<Rightarrow> string list \<times> (js_error + acquired)" where
  "download_repo w owner repo defaultBranch =
     (let branchesToTry = new_Set [defaultBranch, ''main'', ''master'']
      in case try_branches w owner repo branchesToTry of
           (fetched, errors, downloaded) \<Rightarrow>
             (fetched,
              if \<not> downloaded
              then Inl (Error (''Failed to download repository. Tried branches: '' @
                               join '', '' branchesToTry @ ''. Details: '' @ join ''; '' errors))
              else Inr Downloaded))"

text \<open>The default branch: what the API names, and \<open>main\<close> when it names none.\<close>

definition defaultBranch :: "world \<Rightarrow> string" where
  "defaultBranch w =
     (case branch_reply w of
        Info (Some b) \<Rightarrow> if b \<noteq> [] then b else ''main''
      | _ \<Rightarrow> ''main'')"

text \<open>
  The handling of a repository URL, up to the working tree being filled: the archive
  URLs fetched, in order, and how it ends.
\<close>

definition acquire_remote :: "world \<Rightarrow> string \<Rightarrow> string list \<times> (js_error + acquired)" where
  "acquire_remote w repoUrl =
     (case search githubRegex repoUrl of
        None \<Rightarrow>
          ([], Inl (Error ''Invalid GitHub repository URL. Format: https://github.com/owner/repo''))
      | Some m \<Rightarrow>
          if clone_succeeds w then ([], Inr Cloned)
          else download_repo w (group m 1) (group m 2) (defaultBranch w))"

section \<open>Notions the claims are stated with\<close>

text \<open>
  The literals the extractors look for in the text of a file, and a working tree none
  of whose files holds one of them.
\<close>

definition auth_keywords :: "string list" where
  \<open>auth_keywords =
     [''firebase/auth'', ''signInWith'', ''cognito'', ''COGNITO'',
      ''strategy: "jwt"'', ''strategy: '' @ [CHR 0x27] @ ''jwt'' @ [CHR 0x27],
      ''strategy: "database"'', ''strategy: '' @ [CHR 0x27] @ ''database'' @ [CHR 0x27],
      ''Set-Cookie'', ''cookies.set'', ''serialize'', ''localStorage.setItem'',
      ''access_token'', ''accessToken'', ''refresh_token'', ''refreshToken'', ''idToken'', ''id_token'',
      ''role'', ''Role'', ''permission'', ''Permission'', ''admin'', ''user'', ''RBAC'', ''ABAC'',
      ''authMiddleware'', ''requireAuth'', ''checkAuth'', ''verifyToken'', ''unauthorized'',
      ''Unauthorized'', ''cookies.get'', ''status: 401'', ''status:401'', ''statusCode: 401'',
      ''No authentication token'', ''Authentication required'', ''JWT'', ''jwt'',
      ''useAuth'', ''isAuthenticated'', ''signin'', ''login'']\<close>

text \<open>The regular files of a tree, with their texts.\<close>

fun regular :: "(string \<times> entry) list \<Rightarrow> (string \<times> string) list" where
  "regular [] = []"
| "regular ((p, RegularFile content) # es) = (p, content) # regular es"
| "regular ((p, Directory) # es) = regular es"

definition regular_files :: "repo \<Rightarrow> (string \<times> string) list" where
  "regular_files r = regular (entries r)"

definition keyword_free :: "repo \<Rightarrow> bool" where
  "keyword_free r =
     list_all (\<lambda>(rel, content). list_all (\<lambda>k. \<not> js_includes content k) auth_keywords)
       (regular_files r)"

text \<open>
  Nothing is selected by the patterns that find a NextAuth configuration or a
  middleware file by its name alone.  The pattern of the catch-all route is taken both
  ways: as the glob library reads it, and with \<open>[...nextauth]\<close> as the name of a
  directory.
\<close>

definition nextauth_route_literal :: "gseg list list" where
  "nextauth_route_literal =
     with_exts [GlobStar, Seg (map GChar ''[...nextauth]''), GlobStar] [GAny] [''ts'', ''tsx'', ''js'']"


text \<open>
  No directory is selected by a pattern of the extractors: every path they may read is
  a regular file.
\<close>

definition is_directory :: "string \<times> entry \<Rightarrow> bool" where
  "is_directory x = (snd x = Directory)"

definition all_patterns :: "gseg list list" where
  "all_patterns =
     source_files @ next_auth_named @ nextauth_route @ firebase_named @ next_auth_like @
     middleware_like @ middleware_named @ api_files @ component_files @ app_pages @ pages_files"

definition no_directory_selected :: "repo \<Rightarrow> bool" where
  "no_directory_selected r = (\<not> list_ex is_directory (glob_sync all_patterns r))"

text \<open>
  \<open>package.json\<close> is absent, or it is a file that \<open>JSON.parse\<close> reads as a value other
  than \<open>null\<close>.
\<close>

definition manifest_readable :: "repo \<Rightarrow> bool" where
  "manifest_readable r =
     (packageJson r \<noteq> Some ManifestDirectory \<and> packageJson r \<noteq> Some Malformed \<and>
      packageJson r \<noteq> Some JsonNull)"




text \<open>
  A URL the loop stops at: its response is \<open>ok\<close>, its body is not empty and begins with
  the bytes \<open>0x50 0x4B\<close>, and the archive library extracts it.  The combinations of a
  branch list with the three URL formats, in the order of the two loops, and the error
  text pushed for a combination that fails.
\<close>

definition usable :: "world \<Rightarrow> string \<Rightarrow> bool" where
  "usable w zipUrl =
     (case fetch w zipUrl of
        Payload bytes \<Rightarrow> length bytes \<noteq> 0 \<and> isZipFile bytes \<and> unzip w bytes = None
      | _ \<Rightarrow> False)"

definition unusable :: "world \<Rightarrow> string \<times> string \<Rightarrow> bool" where
  "unusable w bu = (\<not> usable w (snd bu))"

definition error_detail :: "world \<Rightarrow> string \<times> string \<Rightarrow> string" where
  "error_detail w bu = (case try_url w (fst bu) (snd bu) of Failed e \<Rightarrow> e | Extracted \<Rightarrow> [])"

definition combinations :: "string \<Rightarrow> string \<Rightarrow> string list \<Rightarrow> (string \<times> string) list" where
  "combinations owner repo branches =
     concat (map (\<lambda>branch. map (Pair branch) (urlFormats owner repo branch)) branches)"


section \<open>Inputs of the examples\<close>

text \<open>A tree in which a role and a permission are found more than once.\<close>

definition dedup_repo :: repo where
  \<open>dedup_repo =
     \<lparr>repoPath = ''/tmp/w'', present = True, packageJson = None,
      entries =
        [(''src'', Directory),
         (''src/guard.ts'', RegularFile ''if (user.role === "admin" && can(user, "edit")) { }''),
         (''src/roles.ts'',
          RegularFile ''const roles = { admin: ["write"], user: ["read"] }; permission === "edit"'')]\<rparr>\<close>


text \<open>The file of the role-object scenario.\<close>

definition roles_repo :: repo where
  \<open>roles_repo =
     \<lparr>repoPath = ''/tmp/w'', present = True, packageJson = None,
      entries =
        [(''roles.ts'', RegularFile ''const roles = { admin: ["read","write"], viewer: ["read"] }'')]\<rparr>\<close>


text \<open>A NextAuth configuration, under the catch-all route directory and under \<open>libs/\<close>.\<close>

definition nextauth_config :: string where
  \<open>nextauth_config = ''export const authOptions = { providers: [GoogleProvider({})], session: { strategy: "jwt" }, callbacks: { session: async ({session}) => { return session } } }''\<close>

definition nextauth_repo :: repo where
  "nextauth_repo =
     \<lparr>repoPath = ''/tmp/w'', present = True, packageJson = None,
      entries = [(''app'', Directory), (''app/api'', Directory),
                 (''app/api/[...nextauth]'', Directory),
                 (''app/api/[...nextauth]/route.ts'', RegularFile nextauth_config)]\<rparr>"

definition nextauth_named_repo :: repo where
  "nextauth_named_repo =
     \<lparr>repoPath = ''/tmp/w'', present = True, packageJson = None,
      entries = [(''libs'', Directory), (''libs/next-auth.ts'', RegularFile nextauth_config)]\<rparr>"

text \<open>A path that does not exist.\<close>

definition missing_repo :: repo where
  "missing_repo = \<lparr>repoPath = ''/tmp/gone'', present = False, packageJson = None, entries = []\<rparr>"

text \<open>Two route files that map to the same endpoint.\<close>

definition orders_repo :: repo where
  \<open>orders_repo =
     \<lparr>repoPath = ''/tmp/w'', present = True, packageJson = None,
      entries =
        [(''app'', Directory), (''app/api'', Directory), (''app/api/orders'', Directory),
         (''app/api/orders/route.ts'',
          RegularFile ''export async function DELETE() { if (role === "admin") return "Unauthorized" }''),
         (''src'', Directory), (''src/app'', Directory), (''src/app/api'', Directory),
         (''src/app/api/orders'', Directory),
         (''src/app/api/orders/route.ts'',
          RegularFile ''export async function GET() { if (role === "editor") return "Unauthorized" }'')]\<rparr>\<close>




definition named_file_repo :: repo where
  "named_file_repo =
     \<lparr>repoPath = ''/tmp/w'', present = True, packageJson = None,
      entries = [(''lib'', Directory), (''lib/next-auth.ts'', RegularFile ''export const x = 1'')]\<rparr>"




text \<open>
  Three worlds in which the clone and the branch query fail: one that serves the archive
  of \<open>master\<close>, one that serves nothing, and one whose first payload begins with the ZIP
  magic bytes but does not extract.
\<close>

definition fallback_world :: world where
  "fallback_world =
     \<lparr>clone_succeeds = False, branch_reply = Unreachable,
      fetch = (\<lambda>u. if u = ''https://github.com/acme/app/archive/master.zip''
                    then Payload [0x50, 0x4B, 0x03, 0x04] else NotOk 404 ''Not Found''),
      unzip = (\<lambda>bytes. None)\<rparr>"

definition dead_world :: world where
  "dead_world =
     \<lparr>clone_succeeds = False, branch_reply = Refused,
      fetch = (\<lambda>u. NotOk 404 ''Not Found''),
      unzip = (\<lambda>bytes. None)\<rparr>"

definition corrupt_world :: world where
  "corrupt_world =
     \<lparr>clone_succeeds = False, branch_reply = Unreachable,
      fetch = (\<lambda>u. if u = ''https://github.com/acme/app/archive/main.zip''
                    then Payload [0x50, 0x4B] else NotOk 404 ''Not Found''),
      unzip = (\<lambda>bytes. Some ''Invalid or unsupported zip format. No END header found'')\<rparr>"

section \<open>Properties\<close>

subsection \<open>The scanning loops end\<close>

text \<open>
  Every match of the two patterns that are scanned with the flag \<open>g\<close> consumes input, so
  \<open>exec_all\<close> never takes its last branch for them.
\<close>

lemma run_class_progress:
  "run (R (Cls p) # k) b s cs = Some (rest, cs') \<Longrightarrow> length rest < length s"
proof (cases s)
  case Nil
  assume "run (R (Cls p) # k) b s cs = Some (rest, cs')"
  then show ?thesis using Nil by simp
next
  case (Cons c s')
  assume "run (R (Cls p) # k) b s cs = Some (rest, cs')"
  then have "run k False s' cs = Some (rest, cs')"
    using Cons by (simp split: if_splits)
  then have "length rest \<le> length s'" by (rule run_rest_le)
  then show ?thesis using Cons by simp
qed

lemma search_at_progress:
  assumes "\<And>b s rest cs. run [R r] b s [] = Some (rest, cs) \<Longrightarrow> length rest < length s"
    and "search_at r b s = Some m"
  shows "shorter (m_rest m) (m_from m)"
  using assms(2)
proof (induction s arbitrary: b)
  case Nil
  then obtain rest cs where "run [R r] b [] [] = Some (rest, cs)"
    by (auto split: option.splits)
  from assms(1) [OF this] show ?case by simp
next
  case (Cons c s)
  show ?case
  proof (cases "run [R r] b (c # s) []")
    case None
    then have "search_at r False s = Some m" using Cons.prems by simp
    then show ?thesis by (rule Cons.IH)
  next
    case (Some a)
    obtain rest cs where a: "a = (rest, cs)" by (cases a)
    have "length rest < length (c # s)" using assms(1) Some a by blast
    then show ?thesis using Cons.prems Some a by (auto simp: shorter_iff)
  qed
qed

lemma userRolePattern_progress:
  "search_at userRolePattern b s = Some m \<Longrightarrow> shorter (m_rest m) (m_from m)"
proof (rule search_at_progress)
  fix b s rest cs
  assume "run [R userRolePattern] b s [] = Some (rest, cs)"
  then show "length rest < length s"
    by (simp add: userRolePattern_def seqs_def str_def lit_def) (rule run_class_progress)
qed

lemma permissionCheckPattern_progress:
  "search_at permissionCheckPattern b s = Some m \<Longrightarrow> shorter (m_rest m) (m_from m)"
proof (rule search_at_progress)
  fix b s rest cs
  assume "run [R permissionCheckPattern] b s [] = Some (rest, cs)"
  then show "length rest < length s"
    by (auto simp: permissionCheckPattern_def seqs_def str_def lit_def alts_def
          split: option.splits dest: run_class_progress)
qed

subsection \<open>Reading the selected paths\<close>

text \<open>
  A filter that reads every path throws exactly when a directory is among the paths,
  and keeps the regular files that pass its test otherwise; a search that reads up to
  the first match returns when no directory is among the paths.
\<close>

lemma and_then_simps [simp]:
  "and_then (Inl err) f = Inl err"
  "and_then (Inr v) f = f v"
  by (simp_all add: and_then_def)

lemma readFileSync_simps [simp]:
  "readFileSync (RegularFile content) = Inr content"
  "readFileSync Directory = Inl EISDIR"
  by (simp_all add: readFileSync_def)

lemma filter_reading_eq:
  "filter_reading p xs =
     (if list_ex is_directory xs then Inl EISDIR
      else Inr (filter (\<lambda>(file, content). p content) (regular xs)))"
proof (induction xs)
  case Nil
  then show ?case by simp
next
  case (Cons x xs)
  obtain f e where x: "x = (f, e)" by (cases x)
  show ?case
  proof (cases e)
    case (RegularFile content)
    then show ?thesis using Cons.IH by (simp add: x is_directory_def)
  next
    case Directory
    then show ?thesis by (simp add: x is_directory_def)
  qed
qed

lemma read_each_eq:
  "read_each xs = (if list_ex is_directory xs then Inl EISDIR else Inr (regular xs))"
  by (simp add: read_each_def filter_reading_eq)

lemma find_reading_regular:
  "\<not> list_ex is_directory xs \<Longrightarrow>
     find_reading p xs = Inr (find (\<lambda>(file, content). p content) (regular xs))"
proof (induction xs)
  case Nil
  then show ?case by simp
next
  case (Cons x xs)
  obtain f e where x: "x = (f, e)" by (cases x)
  from Cons.prems obtain content where e: "e = RegularFile content"
    by (cases e) (simp_all add: x is_directory_def)
  from Cons.prems have "\<not> list_ex is_directory xs" by simp
  from Cons.IH [OF this] show ?case by (simp add: x e)
qed

lemma glob_sync_member:
  "(file, e) \<in> set (glob_sync pats r) \<longleftrightarrow>
     (\<exists>rel. file = abs_path r rel \<and> (rel, e) \<in> set (entries r) \<and>
            list_ex (\<lambda>p. glob_match p (split_on CHR ''/'' rel)) pats)"
  by (auto simp: glob_sync_def)

lemma glob_sync_mono:
  assumes "set ps \<subseteq> set qs" and "x \<in> set (glob_sync ps r)"
  shows "x \<in> set (glob_sync qs r)"
proof -
  obtain f e where x: "x = (f, e)" by (cases x)
  from assms(2) obtain rel where rel: "f = abs_path r rel" "(rel, e) \<in> set (entries r)"
      "list_ex (\<lambda>p. glob_match p (split_on CHR ''/'' rel)) ps"
    unfolding x glob_sync_member by blast
  from rel(3) assms(1) have "list_ex (\<lambda>p. glob_match p (split_on CHR ''/'' rel)) qs"
    by (auto simp: list_ex_iff)
  with rel(1,2) show ?thesis unfolding x glob_sync_member by blast
qed


subsection \<open>Deduplication by name\<close>

lemma set_first_seen: "set (first_seen xs) = set xs"
  by (induction xs) auto

lemma distinct_first_seen: "distinct (first_seen xs)"
  by (induction xs) (auto simp: set_first_seen)

lemma filter_first_seen: "filter P (first_seen xs) = first_seen (filter P xs)"
proof (induction xs)
  case Nil
  then show ?case by simp
next
  case (Cons x xs)
  have comm: "filter P (filter (\<lambda>y. y \<noteq> x) ys) = filter (\<lambda>y. y \<noteq> x) (filter P ys)"
    for ys :: "'a list"
    by (induction ys) auto
  have step: "filter P (filter (\<lambda>y. y \<noteq> x) (first_seen xs))
      = filter (\<lambda>y. y \<noteq> x) (first_seen (filter P xs))"
    by (simp only: comm Cons.IH)
  show ?case
  proof (cases "P x")
    case True
    then show ?thesis by (simp only: first_seen.simps filter.simps if_True step)
  next
    case False
    then have "x \<notin> set (first_seen (filter P xs))" by (simp add: set_first_seen)
    then have "filter (\<lambda>y. y \<noteq> x) (first_seen (filter P xs)) = first_seen (filter P xs)"
      by (auto simp: filter_id_conv)
    then show ?thesis using False by (simp only: first_seen.simps filter.simps if_False step)
  qed
qed

lemma keys_map_set:
  "map fst (map_set m k v) = (if k \<in> fst ` set m then map fst m else map fst m @ [k])"
  by (induction m k v rule: map_set.induct) auto

lemma key_set_map_set: "fst ` set (map_set m k v) = insert k (fst ` set m)"
  by (induction m k v rule: map_set.induct) auto

lemma map_of_map_set: "map_of (map_set m k v) = (map_of m)(k \<mapsto> v)"
  by (induction m k v rule: map_set.induct) auto

lemma keys_foldl_map_set:
  "map fst (foldl (\<lambda>m (k, v). map_set m k v) m es) =
     map fst m @ first_seen (filter (\<lambda>k. k \<notin> fst ` set m) (map fst es))"
proof (induction es arbitrary: m)
  case Nil
  then show ?case by simp
next
  case (Cons e es)
  obtain k v where e: "e = (k, v)" by (cases e)
  let ?S = "fst ` set m"
  have IH: "map fst (foldl (\<lambda>m (k, v). map_set m k v) (map_set m k v) es) =
     map fst (map_set m k v) @ first_seen (filter (\<lambda>x. x \<notin> insert k ?S) (map fst es))"
    using Cons.IH [of "map_set m k v"] by (simp only: key_set_map_set)
  have unfold: "map fst (foldl (\<lambda>m (k, v). map_set m k v) m (e # es))
      = map fst (foldl (\<lambda>m (k, v). map_set m k v) (map_set m k v) es)"
    by (simp add: e)
  show ?case
  proof (cases "k \<in> ?S")
    case True
    then have "insert k ?S = ?S" by blast
    then show ?thesis using IH True e by (simp add: keys_map_set)
  next
    case False
    have split: "filter (\<lambda>x. x \<notin> insert k ?S) (map fst es)
          = filter (\<lambda>y. y \<noteq> k) (filter (\<lambda>x. x \<notin> ?S) (map fst es))"
      by (induction es) auto
    have "map fst (foldl (\<lambda>m (k, v). map_set m k v) (map_set m k v) es)
        = (map fst m @ [k])
            @ first_seen (filter (\<lambda>y. y \<noteq> k) (filter (\<lambda>x. x \<notin> ?S) (map fst es)))"
      using IH False by (simp only: keys_map_set split if_False)
    also have "\<dots> = map fst m
        @ k # filter (\<lambda>y. y \<noteq> k) (first_seen (filter (\<lambda>x. x \<notin> ?S) (map fst es)))"
      by (simp only: filter_first_seen append_assoc append_Cons append_Nil)
    also have "\<dots> = map fst m @ first_seen (filter (\<lambda>x. x \<notin> ?S) (map fst (e # es)))"
      using False by (simp add: e)
    finally show ?thesis by (simp only: unfold)
  qed
qed

lemma map_of_foldl_map_set:
  "map_of (foldl (\<lambda>m (k, v). map_set m k v) m es) = map_of m ++ map_of (rev es)"
proof (induction es arbitrary: m)
  case Nil
  then show ?case by simp
next
  case (Cons e es)
  obtain k v where e: "e = (k, v)" by (cases e)
  have "map_of (foldl (\<lambda>m (k, v). map_set m k v) m (e # es))
      = map_of (foldl (\<lambda>m (k, v). map_set m k v) (map_set m k v) es)"
    by (simp add: e)
  also have "\<dots> = map_of (map_set m k v) ++ map_of (rev es)"
    by (rule Cons.IH)
  also have "\<dots> = (map_of m)(k \<mapsto> v) ++ map_of (rev es)"
    by (simp only: map_of_map_set)
  also have "\<dots> = map_of m ++ map_of (rev es @ [(k, v)])"
    by (rule ext) (auto simp: map_add_def split: option.splits)
  also have "\<dots> = map_of m ++ map_of (rev (e # es))"
    by (simp add: e)
  finally show ?case .
qed

lemma keys_new_Map: "map fst (new_Map es) = first_seen (map fst es)"
  by (simp add: new_Map_def keys_foldl_map_set)

lemma map_of_new_Map: "map_of (new_Map es) = map_of (rev es)"
  by (simp add: new_Map_def map_of_foldl_map_set)

lemma map_of_rev_keyed:
  "map_of (rev (map (\<lambda>x. (f x, x)) cs)) k =
     (if filter (\<lambda>c. f c = k) cs = [] then None else Some (last (filter (\<lambda>c. f c = k) cs)))"
  by (induction cs rule: rev_induct) auto

lemma new_Map_entry:
  assumes "(k, x) \<in> set (new_Map (map (\<lambda>x. (f x, x)) cs))"
  shows "f x = k \<and> x = last (filter (\<lambda>c. f c = k) cs)"
proof -
  let ?M = "new_Map (map (\<lambda>x. (f x, x)) cs)"
  have "distinct (map fst ?M)" by (simp add: keys_new_Map distinct_first_seen)
  then have "map_of ?M k = Some x" using assms by simp
  then have some: "map_of (rev (map (\<lambda>x. (f x, x)) cs)) k = Some x" by (simp add: map_of_new_Map)
  then have ne: "filter (\<lambda>c. f c = k) cs \<noteq> []" and x: "x = last (filter (\<lambda>c. f c = k) cs)"
    by (auto simp: map_of_rev_keyed split: if_splits)
  from ne have "last (filter (\<lambda>c. f c = k) cs) \<in> set (filter (\<lambda>c. f c = k) cs)"
    by (rule last_in_set)
  then show ?thesis using x by simp
qed

lemma dedup_length:
  "length (map_values (new_Map (map (\<lambda>x. (f x, x)) cs))) = card (f ` set cs)"
proof -
  let ?M = "new_Map (map (\<lambda>x. (f x, x)) cs)"
  have keys: "map fst ?M = first_seen (map f cs)"
    by (simp add: keys_new_Map comp_def)
  have "length (map_values ?M) = length (map fst ?M)" by (simp add: map_values_def)
  also have "\<dots> = card (set (first_seen (map f cs)))"
    unfolding keys by (simp add: distinct_card distinct_first_seen)
  finally show ?thesis by (simp add: set_first_seen)
qed

lemma dedup_order:
  "map f (map_values (new_Map (map (\<lambda>x. (f x, x)) cs))) = first_seen (map f cs)"
proof -
  let ?M = "new_Map (map (\<lambda>x. (f x, x)) cs)"
  have "f (snd e) = fst e" if "e \<in> set ?M" for e
  proof -
    from that have "(fst e, snd e) \<in> set ?M" by simp
    from new_Map_entry [OF this] show ?thesis by blast
  qed
  then have "map f (map_values ?M) = map fst ?M"
    by (simp add: map_values_def)
  then show ?thesis by (simp add: keys_new_Map comp_def)
qed

lemma dedup_last:
  assumes "x \<in> set (map_values (new_Map (map (\<lambda>x. (f x, x)) cs)))"
  shows "x = last (filter (\<lambda>c. f c = f x) cs)"
proof -
  from assms obtain k where "(k, x) \<in> set (new_Map (map (\<lambda>x. (f x, x)) cs))"
    by (auto simp: map_values_def)
  from new_Map_entry [OF this]
  have fx: "f x = k" and xl: "x = last (filter (\<lambda>c. f c = k) cs)" by blast+
  show ?thesis unfolding fx by (rule xl)
qed

lemma role_loop_candidates:
  "foldl (role_step root) (rs, ps, impl) fs = (rs', ps', impl') \<Longrightarrow>
     rs' = rs @ concat (map (\<lambda>(path, content). extractRoles content) fs) \<and>
     ps' = ps @ concat (map (\<lambda>(path, content). extractPermissions content) fs)"
proof (induction fs arbitrary: rs ps impl)
  case Nil
  then show ?case by simp
next
  case (Cons f fs)
  obtain path content where f: "f = (path, content)" by (cases f)
  obtain impl1 where step: "role_step root (rs, ps, impl) f
      = (rs @ extractRoles content, ps @ extractPermissions content, impl1)"
    by (simp add: role_step_def f)
  from Cons.prems have "foldl (role_step root)
      (rs @ extractRoles content, ps @ extractPermissions content, impl1) fs = (rs', ps', impl')"
    by (simp add: step)
  from Cons.IH [OF this] show ?case by (simp add: f)
qed

lemma dedup_repo_candidates:
  "role_candidates dedup_repo =
     [\<lparr>role_name = ''admin'', role_permissions = []\<rparr>,
      \<lparr>role_name = ''admin'', role_permissions = [''write'']\<rparr>,
      \<lparr>role_name = ''user'', role_permissions = [''read'']\<rparr>]"
  "permission_candidates dedup_repo = [\<lparr>perm_name = ''edit''\<rparr>, \<lparr>perm_name = ''edit''\<rparr>]"
  by code_simp+

text \<open>
  C1.  For every working tree, the role-model extractor returns unless a directory is
  among the paths its pattern selects, which it cannot read; and the roles and the
  permissions it returns are its candidate facts deduplicated by name: there are as
  many entries as distinct names among the candidates, the names stand in the order of
  their first occurrence among the candidates, and each entry is the last candidate of
  its name.
\<close>

theorem C1_dedup:
  "(case extractRoleModel r of
      Inr m \<Rightarrow>
        length (rm_roles m) = card (role_name ` set (role_candidates r)) \<and>
        map role_name (rm_roles m) = first_seen (map role_name (role_candidates r)) \<and>
        (\<forall>x \<in> set (rm_roles m).
           x = last (filter (\<lambda>c. role_name c = role_name x) (role_candidates r))) \<and>
        length (rm_permissions m) = card (perm_name ` set (permission_candidates r)) \<and>
        map perm_name (rm_permissions m) = first_seen (map perm_name (permission_candidates r)) \<and>
        (\<forall>x \<in> set (rm_permissions m).
           x = last (filter (\<lambda>c. perm_name c = perm_name x) (permission_candidates r)))
    | Inl err \<Rightarrow> err = EISDIR \<and> list_ex is_directory (glob_sync source_files r))"
proof (cases "list_ex is_directory (glob_sync source_files r)")
  case True
  then have "extractRoleModel r = Inl EISDIR"
    by (simp add: extractRoleModel_def roleFiles_def filter_reading_eq)
  then show ?thesis using True by simp
next
  case False
  define fs where "fs = filter (\<lambda>(file, content). mentions_roles content)
      (regular (glob_sync source_files r))"
  have scanned: "roleFiles r = Inr fs"
    using False by (simp add: roleFiles_def filter_reading_eq fs_def)
  obtain rs ps impl where loop: "foldl (role_step (repoPath r))
      ([], [], \<lparr>rmi_filePath = [], rmi_template = [], rmi_checkPattern = []\<rparr>) fs
      = (rs, ps, impl)"
    by (metis prod_cases3)
  from role_loop_candidates [OF loop]
  have rs: "rs = role_candidates r" and ps: "ps = permission_candidates r"
    by (simp_all add: role_candidates_def permission_candidates_def scanned)
  define m where "m = \<lparr>rm_roles = map_values (new_Map (map (\<lambda>x. (role_name x, x)) (role_candidates r))),
      rm_permissions = map_values (new_Map (map (\<lambda>x. (perm_name x, x)) (permission_candidates r))),
      rm_implementation = impl,
      rm_hierarchy = extractHierarchy
        (map_values (new_Map (map (\<lambda>x. (role_name x, x)) (role_candidates r))))\<rparr>"
  have result: "extractRoleModel r = Inr m"
    by (simp add: extractRoleModel_def scanned loop rs ps Let_def m_def)
  have roles: "rm_roles m = map_values (new_Map (map (\<lambda>x. (role_name x, x)) (role_candidates r)))"
    and perms: "rm_permissions m
      = map_values (new_Map (map (\<lambda>x. (perm_name x, x)) (permission_candidates r)))"
    by (simp_all add: m_def)
  have r1: "length (rm_roles m) = card (role_name ` set (role_candidates r))"
    unfolding roles by (rule dedup_length)
  have r2: "map role_name (rm_roles m) = first_seen (map role_name (role_candidates r))"
    unfolding roles by (rule dedup_order)
  have r3: "\<forall>x \<in> set (rm_roles m).
      x = last (filter (\<lambda>c. role_name c = role_name x) (role_candidates r))"
    unfolding roles by (blast intro: dedup_last)
  have p1: "length (rm_permissions m) = card (perm_name ` set (permission_candidates r))"
    unfolding perms by (rule dedup_length)
  have p2: "map perm_name (rm_permissions m) = first_seen (map perm_name (permission_candidates r))"
    unfolding perms by (rule dedup_order)
  have p3: "\<forall>x \<in> set (rm_permissions m).
      x = last (filter (\<lambda>c. perm_name c = perm_name x) (permission_candidates r))"
    unfolding perms by (blast intro: dedup_last)
  show ?thesis
    unfolding result sum.case by (intro conjI r1 r2 r3 p1 p2 p3)
qed

theorem C1_dedup_witness:
  "role_candidates dedup_repo =
     [\<lparr>role_name = ''admin'', role_permissions = []\<rparr>,
      \<lparr>role_name = ''admin'', role_permissions = [''write'']\<rparr>,
      \<lparr>role_name = ''user'', role_permissions = [''read'']\<rparr>] \<and>
   map_sum id rm_roles (extractRoleModel dedup_repo) =
     Inr [\<lparr>role_name = ''admin'', role_permissions = [''write'']\<rparr>,
          \<lparr>role_name = ''user'', role_permissions = [''read'']\<rparr>] \<and>
   permission_candidates dedup_repo = [\<lparr>perm_name = ''edit''\<rparr>, \<lparr>perm_name = ''edit''\<rparr>] \<and>
   map_sum id rm_permissions (extractRoleModel dedup_repo) = Inr [\<lparr>perm_name = ''edit''\<rparr>]"
proof -
  have roles: "map_sum id rm_roles (extractRoleModel dedup_repo) =
     Inr [\<lparr>role_name = ''admin'', role_permissions = [''write'']\<rparr>,
          \<lparr>role_name = ''user'', role_permissions = [''read'']\<rparr>]"
    by code_simp
  have perms: "map_sum id rm_permissions (extractRoleModel dedup_repo) = Inr [\<lparr>perm_name = ''edit''\<rparr>]"
    by code_simp
  show ?thesis
    using C1_dedup [of dedup_repo] roles perms dedup_repo_candidates by simp
qed

subsection \<open>The role hierarchy\<close>

text \<open>
  C4.  The level table maps \<open>guest\<close> to 0, and the extractor keeps a role only when the
  level it reads is truthy: a role list that holds only \<open>guest\<close> has no hierarchy, and
  beside \<open>admin\<close> the role \<open>guest\<close> is left out of it.
\<close>

theorem C4_guest_omitted:
  "extractHierarchy [\<lparr>role_name = ''guest'', role_permissions = []\<rparr>] = None \<and>
   extractHierarchy [\<lparr>role_name = ''admin'', role_permissions = []\<rparr>,
                     \<lparr>role_name = ''guest'', role_permissions = []\<rparr>]
     = Some \<lparr>levels = [(''admin'', Level 3)]\<rparr>"
  by code_simp

text \<open>
  C7.  On the file \<open>const roles = { admin: ["read","write"], viewer: ["read"] }\<close> the
  extractor returns one role, \<open>viewer\<close> with the permission \<open>read\<close>, and the hierarchy of
  \<open>viewer\<close> alone: the body of the object is split at every comma, also the one inside
  the array of \<open>admin\<close>, and \<open>admin: ["read"\<close> is no entry.
\<close>

theorem C7_role_object:
  "(case extractRoleModel roles_repo of
      Inr m \<Rightarrow> rm_roles m = [\<lparr>role_name = ''viewer'', role_permissions = [''read'']\<rparr>] \<and>
               rm_hierarchy m = Some \<lparr>levels = [(''viewer'', Level 1)]\<rparr>
    | Inl err \<Rightarrow> False)"
  by code_simp

subsection \<open>The access-token lifetime\<close>





subsection \<open>Evaluation\<close>

lemmas glob_defs = glob_sync_def with_exts_def seg_ok_def abs_path_def source_files_def
  next_auth_like_def next_auth_named_def nextauth_route_def firebase_named_def
  middleware_like_def middleware_named_def api_files_def component_files_def
  app_pages_def pages_files_def nextauth_route_literal_def all_patterns_def

lemmas rx_defs = seqs_def str_def alts_def lit_def opt_def plusC_def one_of_def none_of_def
  any_char_def quote_def is_space_def is_word_def is_digit_def not_newline_def
  search_def group_def first_group_def braced_body_def

subsection \<open>When the pipeline returns\<close>

text \<open>
  The extractors return on every tree in which no directory is selected by one of
  their patterns, and the pipeline returns on such a tree when the root is there and
  \<open>package.json\<close> is readable; the record it returns holds what the extractors returned.
\<close>

lemma pattern_subsets:
  "set source_files \<subseteq> set all_patterns"
  "set next_auth_named \<subseteq> set all_patterns"
  "set nextauth_route \<subseteq> set all_patterns"
  "set firebase_named \<subseteq> set all_patterns"
  "set next_auth_like \<subseteq> set all_patterns"
  "set middleware_like \<subseteq> set all_patterns"
  "set middleware_named \<subseteq> set all_patterns"
  "set api_files \<subseteq> set all_patterns"
  "set component_files \<subseteq> set all_patterns"
  "set app_pages \<subseteq> set all_patterns"
  "set pages_files \<subseteq> set all_patterns"
  by (auto simp: all_patterns_def)

lemma selected_regular:
  assumes "no_directory_selected r" and "set pats \<subseteq> set all_patterns"
  shows "\<not> list_ex is_directory (glob_sync pats r)"
proof
  assume "list_ex is_directory (glob_sync pats r)"
  then obtain x where x: "x \<in> set (glob_sync pats r)" "is_directory x"
    by (auto simp: list_ex_iff)
  from glob_sync_mono [OF assms(2) x(1)] x(2) assms(1) show False
    by (auto simp: no_directory_selected_def list_ex_iff)
qed

lemmas selected = pattern_subsets [THEN selected_regular [rotated]]

lemma middlewareFiles_regular:
  "no_directory_selected r \<Longrightarrow> \<not> list_ex is_directory (middlewareFiles r)"
  by (simp add: middlewareFiles_def selected)

lemma apiRouteFiles_regular:
  "no_directory_selected r \<Longrightarrow> \<not> list_ex is_directory (apiRouteFiles r)"
  using selected(8) [of r] by (auto simp: apiRouteFiles_def list_ex_iff)

lemma pageFiles_regular:
  "no_directory_selected r \<Longrightarrow> \<not> list_ex is_directory (glob_sync app_pages r @ glob_sync pages_files r)"
  by (simp add: selected)

lemma extractAuthProvider_returns:
  assumes "no_directory_selected r"
  shows "\<exists>provider. extractAuthProvider r = Inr provider"
proof (cases "glob_sync next_auth_named r @ glob_sync nextauth_route r")
  case Nil
  then show ?thesis
    by (simp add: extractAuthProvider_def find_reading_regular selected [OF assms]
          split: option.splits)
next
  case (Cons x xs)
  obtain f e where x: "x = (f, e)" by (cases x)
  have "\<not> list_ex is_directory (glob_sync next_auth_named r @ glob_sync nextauth_route r)"
    by (simp add: selected [OF assms])
  then obtain content where "e = RegularFile content"
    unfolding Cons x by (cases e) (simp_all add: is_directory_def)
  then show ?thesis by (simp add: extractAuthProvider_def Cons x)
qed

lemma nextauth_session_returns:
  "\<not> list_ex is_directory xs \<Longrightarrow> \<exists>decided. nextauth_session root xs = Inr decided"
proof (induction xs)
  case Nil
  then show ?case by simp
next
  case (Cons x xs)
  obtain f e where x: "x = (f, e)" by (cases x)
  from Cons.prems obtain content where e: "e = RegularFile content"
    by (cases e) (simp_all add: x is_directory_def)
  from Cons.prems have "\<not> list_ex is_directory xs" by simp
  from Cons.IH [OF this] show ?case by (simp add: x e)
qed

lemma extractSessionStorage_returns:
  assumes "no_directory_selected r"
  shows "\<exists>session. extractSessionStorage r = Inr session"
proof -
  obtain decided where "nextauth_session (repoPath r) (glob_sync next_auth_like r) = Inr decided"
    using nextauth_session_returns [OF selected(5) [OF assms]] by blast
  then show ?thesis
    by (simp add: extractSessionStorage_def filter_reading_eq selected [OF assms]
          split: option.splits list.splits)
qed

lemma extractTokenStrategy_returns:
  "no_directory_selected r \<Longrightarrow> \<exists>tokens. extractTokenStrategy r = Inr tokens"
  by (simp add: extractTokenStrategy_def tokenFiles_def filter_reading_eq selected)

lemma extractRoleModel_returns:
  "no_directory_selected r \<Longrightarrow> \<exists>roles. extractRoleModel r = Inr roles"
  by (simp add: extractRoleModel_def roleFiles_def filter_reading_eq selected Let_def
        split: prod.splits)

lemma extractPermissionChecks_returns:
  assumes "no_directory_selected r"
  shows "\<exists>checked. extractPermissionChecks r = Inr checked"
    and "\<exists>checked. extractPermissionChecks_ext r = Inr checked"
  by (simp_all add: extractPermissionChecks_def extractPermissionChecks_ext_def
        extract_middleware_def read_each_eq filter_reading_eq Let_def
        middlewareFiles_regular [OF assms] apiRouteFiles_regular [OF assms]
        pageFiles_regular [OF assms] selected [OF assms])

lemma read_framework_returns:
  "manifest_readable r \<Longrightarrow> \<exists>fw. read_framework r = Inr fw"
  by (auto simp: read_framework_def manifest_readable_def split: option.splits manifest.splits)

lemma extract_with_returns:
  assumes "present r" and "manifest_readable r" and "no_directory_selected r"
    and "\<exists>checked. checks r = Inr checked"
  shows "\<exists>am. extract_with checks r = Inr am"
proof -
  from read_framework_returns [OF assms(2)] extractAuthProvider_returns [OF assms(3)]
    extractSessionStorage_returns [OF assms(3)] extractTokenStrategy_returns [OF assms(3)]
    extractRoleModel_returns [OF assms(3)] assms(4)
  obtain fw provider session tokens roles checked where
    "read_framework r = Inr fw" "extractAuthProvider r = Inr provider"
    "extractSessionStorage r = Inr session" "extractTokenStrategy r = Inr tokens"
    "extractRoleModel r = Inr roles" "checks r = Inr checked"
    by blast
  then show ?thesis using assms(1) by (simp add: extract_with_def)
qed

lemma extractAuthSystem_returns:
  assumes "present r" and "manifest_readable r" and "no_directory_selected r"
  shows "\<exists>am. extractAuthSystem r = Inr am" and "\<exists>am. extractAuthSystem_ext r = Inr am"
  unfolding extractAuthSystem_def extractAuthSystem_ext_def
  by (rule extract_with_returns [where checks = extractPermissionChecks,
            OF assms extractPermissionChecks_returns(1) [OF assms(3)]],
      rule extract_with_returns [where checks = extractPermissionChecks_ext,
            OF assms extractPermissionChecks_returns(2) [OF assms(3)]])

lemma extract_with_parts:
  assumes "extract_with checks r = Inr am"
  shows "extractAuthProvider r = Inr (authProvider am)"
    and "extractSessionStorage r = Inr (sessionStorage am)"
    and "extractTokenStrategy r = Inr (tokenStrategy am)"
    and "extractRoleModel r = Inr (roleModel am)"
    and "checks r = Inr (permissionChecks am)"
  using assms
  by (auto simp: extract_with_def and_then_def split: if_splits sum.splits)

subsection \<open>The NextAuth scenario\<close>

lemma nextauth_repo_provider:
  "extractAuthProvider nextauth_repo = Inr unknown_provider"
  by (simp add: extractAuthProvider_def nextauth_repo_def nextauth_config_def glob_defs)

lemma nextauth_repo_session:
  "extractSessionStorage nextauth_repo = Inr default_session"
  by (simp add: extractSessionStorage_def nextauth_repo_def nextauth_config_def glob_defs
        dquoted_def squoted_def)

lemma nextauth_repo_returns:
  "\<exists>am. extractAuthSystem nextauth_repo = Inr am"
proof (rule extractAuthSystem_returns(1))
  show "present nextauth_repo" by (simp add: nextauth_repo_def)
  show "manifest_readable nextauth_repo" by (simp add: nextauth_repo_def manifest_readable_def)
  show "no_directory_selected nextauth_repo"
    by (simp add: no_directory_selected_def nextauth_repo_def glob_defs is_directory_def)
qed

text \<open>
  C6.  For the tree whose configuration lies at \<open>app/api/[...nextauth]/route.ts\<close> the
  pipeline returns the provider type \<open>unknown\<close> and no callback sample (the session
  strategy is the default \<open>jwt\<close>): the pattern \<open>**/[...nextauth]/**\<close> selects directories
  named by one character of the bracket expression, never the directory
  \<open>[...nextauth]\<close>.  The same text in \<open>libs/next-auth.ts\<close> is detected, with its one
  callback sample \<open>session\<close>.
\<close>

theorem C6_nextauth_route_undetected:
  "(case extractAuthSystem nextauth_repo of
      Inr am \<Rightarrow> ap_type (authProvider am) = Unknown \<and> callbacks (authProvider am) = None \<and>
                 strategy (sessionStorage am) = Jwt
    | Inl err \<Rightarrow> False) \<and>
   (case extractAuthProvider nextauth_named_repo of
      Inr provider \<Rightarrow> ap_type provider = NextAuth \<and>
                      map_option (map cb_name) (callbacks provider) = Some [''session'']
    | Inl err \<Rightarrow> False)"
proof -
  obtain am where am: "extractAuthSystem nextauth_repo = Inr am"
    using nextauth_repo_returns by blast
  from extract_with_parts(1,2) [OF am [unfolded extractAuthSystem_def]]
  have "authProvider am = unknown_provider" "sessionStorage am = default_session"
    by (simp_all add: nextauth_repo_provider nextauth_repo_session)
  then have a: "ap_type (authProvider am) = Unknown \<and> callbacks (authProvider am) = None \<and>
      strategy (sessionStorage am) = Jwt"
    by (simp add: unknown_provider_def default_session_def)
  have b: "(case extractAuthProvider nextauth_named_repo of
      Inr provider \<Rightarrow> ap_type provider = NextAuth \<and>
                      map_option (map cb_name) (callbacks provider) = Some [''session'']
    | Inl err \<Rightarrow> False)"
    by code_simp
  show ?thesis using a b by (simp add: am)
qed

subsection \<open>A path that does not exist\<close>

text \<open>
  C9.  For every repository path that does not exist, \<open>extractAuthSystem\<close> ends with the
  error that names the path, and returns no record.
\<close>

theorem C9_missing_path:
  "\<not> present r \<Longrightarrow>
     extractAuthSystem r = Inl (Error (''Repository path does not exist: '' @ repoPath r)) \<and>
     extractAuthSystem_ext r = Inl (Error (''Repository path does not exist: '' @ repoPath r))"
  by (simp add: extractAuthSystem_def extractAuthSystem_ext_def extract_with_def)

theorem C9_missing_path_witness:
  "\<not> present missing_repo \<and>
   extractAuthSystem missing_repo = Inl (Error ''Repository path does not exist: /tmp/gone'')"
  using C9_missing_path [of missing_repo] by (simp add: missing_repo_def)

subsection \<open>The lookups of the generated file\<close>

lemma find_first:
  "i < length xs \<Longrightarrow> P (xs ! i) \<Longrightarrow> (\<forall>j<i. \<not> P (xs ! j)) \<Longrightarrow> find P xs = Some (xs ! i)"
proof (induction xs arbitrary: i)
  case Nil
  then show ?case by simp
next
  case (Cons x xs)
  show ?case
  proof (cases i)
    case 0
    then show ?thesis using Cons.prems by simp
  next
    case (Suc k)
    have "\<not> P x" using Cons.prems(3) Suc by (metis nth_Cons_0 zero_less_Suc)
    moreover have "find P xs = Some (xs ! k)"
    proof (rule Cons.IH)
      show "k < length xs" using Cons.prems(1) Suc by simp
      show "P (xs ! k)" using Cons.prems(2) Suc by simp
      show "\<forall>j<k. \<not> P (xs ! j)"
      proof (intro allI impI)
        fix j assume "j < k"
        then have "Suc j < i" using Suc by simp
        then have "\<not> P ((x # xs) ! Suc j)" using Cons.prems(3) by blast
        then show "\<not> P (xs ! j)" by simp
      qed
    qed
    ultimately show ?thesis using Suc by simp
  qed
qed

text \<open>
  C10.  For every assembled record and path \<open>p\<close>: \<open>isProtectedRoute(p)\<close> holds if and only
  if some protected route has the path \<open>p\<close>; \<open>getRequiredRole(p)\<close> and
  \<open>getRequiredPermission(p)\<close> return the fields of the first route in list order whose
  path is \<open>p\<close>, and \<open>undefined\<close> when no route has that path.
\<close>

theorem C10_lookups:
  "(isProtectedRoute am p \<longleftrightarrow> (\<exists>route \<in> set (protectedRoutes (permissionChecks am)). path route = p)) \<and>
   (\<forall>i < length (protectedRoutes (permissionChecks am)).
      path (protectedRoutes (permissionChecks am) ! i) = p \<and>
      (\<forall>j < i. path (protectedRoutes (permissionChecks am) ! j) \<noteq> p) \<longrightarrow>
        getRequiredRole am p = requiredRole (protectedRoutes (permissionChecks am) ! i) \<and>
        getRequiredPermission am p = requiredPermission (protectedRoutes (permissionChecks am) ! i)) \<and>
   ((\<forall>route \<in> set (protectedRoutes (permissionChecks am)). path route \<noteq> p) \<longrightarrow>
      getRequiredRole am p = None \<and> getRequiredPermission am p = None)"
proof (intro conjI allI impI)
  let ?rs = "protectedRoutes (permissionChecks am)"
  show "isProtectedRoute am p \<longleftrightarrow> (\<exists>route \<in> set ?rs. path route = p)"
    by (simp add: isProtectedRoute_def list_ex_iff)
next
  let ?rs = "protectedRoutes (permissionChecks am)"
  fix i
  assume i: "i < length ?rs" and h: "path (?rs ! i) = p \<and> (\<forall>j<i. path (?rs ! j) \<noteq> p)"
  then have f: "find (\<lambda>r. path r = p) ?rs = Some (?rs ! i)"
    by (intro find_first) auto
  show "getRequiredRole am p = requiredRole (?rs ! i)"
    by (simp add: getRequiredRole_def f)
  show "getRequiredPermission am p = requiredPermission (?rs ! i)"
    by (simp add: getRequiredPermission_def f)
next
  let ?rs = "protectedRoutes (permissionChecks am)"
  assume "\<forall>route \<in> set ?rs. path route \<noteq> p"
  then have f: "find (\<lambda>r. path r = p) ?rs = None"
    by (simp add: find_None_iff)
  show "getRequiredRole am p = None" by (simp add: getRequiredRole_def f)
  show "getRequiredPermission am p = None" by (simp add: getRequiredPermission_def f)
qed

lemma orders_repo_returns:
  "\<exists>am. extractAuthSystem_ext orders_repo = Inr am"
proof (rule extractAuthSystem_returns(2))
  show "present orders_repo" by (simp add: orders_repo_def)
  show "manifest_readable orders_repo" by (simp add: orders_repo_def manifest_readable_def)
  show "no_directory_selected orders_repo"
    by (simp add: no_directory_selected_def orders_repo_def glob_defs is_directory_def)
qed

lemma orders_routes:
  "map_sum id (\<lambda>checked. map (\<lambda>r. (path r, requiredRole r, requiredPermission r))
                             (protectedRoutes checked))
     (extractPermissionChecks_ext orders_repo)
    = Inr [(''/api/orders'', Some ''admin'', None), (''/api/orders'', Some ''editor'', None)]"
  by (simp add: orders_repo_def extractPermissionChecks_ext_def extract_middleware_def
        middlewareFiles_def read_each_def
        Let_def apiRouteFiles_def glob_defs is_protected_ext_def extractProtectedRoute_ext_def
        api_endpoint_ext_def api_protection_ext_def apiRoutePattern_ext_def equalityPattern_def
        rx_defs login_redirect_def)

theorem C10_lookups_witness:
  "(case extractAuthSystem_ext orders_repo of
      Inr am \<Rightarrow>
        isProtectedRoute am ''/api/orders'' \<and>
        getRequiredRole am ''/api/orders'' = Some ''admin'' \<and>
        getRequiredPermission am ''/api/orders'' = None \<and>
        \<not> isProtectedRoute am ''/api/users'' \<and>
        getRequiredRole am ''/api/users'' = None
    | Inl err \<Rightarrow> False)"
proof -
  obtain am where am: "extractAuthSystem_ext orders_repo = Inr am"
    using orders_repo_returns by blast
  let ?rs = "protectedRoutes (permissionChecks am)"
  have checks: "extractPermissionChecks_ext orders_repo = Inr (permissionChecks am)"
    by (rule extract_with_parts(5) [OF am [unfolded extractAuthSystem_ext_def]])
  have routes: "map (\<lambda>r. (path r, requiredRole r, requiredPermission r)) ?rs
      = [(''/api/orders'', Some ''admin'', None), (''/api/orders'', Some ''editor'', None)]"
    using orders_routes unfolding checks by simp
  have len: "length ?rs = 2"
    using arg_cong [OF routes, of length] by simp
  have p: "map path ?rs = [''/api/orders'', ''/api/orders'']"
    using arg_cong [OF routes, of "map fst"] by (simp add: comp_def)
  have q: "map requiredRole ?rs = [Some ''admin'', Some ''editor'']"
    using arg_cong [OF routes, of "map (\<lambda>x. fst (snd x))"] by (simp add: comp_def)
  have s: "map requiredPermission ?rs = [None, None]"
    using arg_cong [OF routes, of "map (\<lambda>x. snd (snd x))"] by (simp add: comp_def)
  have p0: "path (?rs ! 0) = ''/api/orders''"
    using arg_cong [OF p, of "\<lambda>xs. xs ! 0"] len by simp
  have q0: "requiredRole (?rs ! 0) = Some ''admin''"
    using arg_cong [OF q, of "\<lambda>xs. xs ! 0"] len by simp
  have s0: "requiredPermission (?rs ! 0) = None"
    using arg_cong [OF s, of "\<lambda>xs. xs ! 0"] len by simp
  have none: "\<forall>route \<in> set ?rs. path route \<noteq> ''/api/users''"
  proof
    fix route assume "route \<in> set ?rs"
    then have "path route \<in> set (map path ?rs)" by simp
    then show "path route \<noteq> ''/api/users''" unfolding p by auto
  qed
  have some: "\<exists>route \<in> set ?rs. path route = ''/api/orders''"
  proof
    show "?rs ! 0 \<in> set ?rs" using len by simp
    show "path (?rs ! 0) = ''/api/orders''" by (rule p0)
  qed
  note orders = C10_lookups [of am "''/api/orders''"]
  note users = C10_lookups [of am "''/api/users''"]
  have a: "isProtectedRoute am ''/api/orders''"
    using orders [THEN conjunct1] some by simp
  have b: "getRequiredRole am ''/api/orders'' = requiredRole (?rs ! 0) \<and>
           getRequiredPermission am ''/api/orders'' = requiredPermission (?rs ! 0)"
    using orders [THEN conjunct2, THEN conjunct1, THEN spec, of 0] len p0 by simp
  have c: "\<not> isProtectedRoute am ''/api/users''"
    using users [THEN conjunct1] none by simp
  have d: "getRequiredRole am ''/api/users'' = None"
    using users [THEN conjunct2, THEN conjunct2] none by simp
  show ?thesis using a b c d q0 s0 by (simp add: am)
qed

subsection \<open>Trees without an auth keyword\<close>


















text \<open>
  The provider is looked for by file name before any text is searched: a file
  \<open>lib/next-auth.ts\<close> whose text holds no auth keyword makes the provider \<open>next-auth\<close>.
\<close>

lemma provider_by_file_name:
  "keyword_free named_file_repo \<and>
   (case extractAuthProvider named_file_repo of
      Inr provider \<Rightarrow> ap_type provider = NextAuth | Inl err \<Rightarrow> False)"
  by (simp add: named_file_repo_def keyword_free_def regular_files_def auth_keywords_def
        glob_defs extractAuthProvider_def extractNextAuth_def Let_def)

subsection \<open>The guarded API route\<close>











subsection \<open>The download fallback\<close>

lemma try_url_usable: "try_url w b u = Extracted \<longleftrightarrow> usable w u"
  by (simp add: try_url_def usable_def Let_def split: fetched.splits option.splits)

lemma try_url_failed: "try_url w b u = Failed e \<Longrightarrow> \<not> usable w u \<and> error_detail w (b, u) = e"
  using try_url_usable [of w b u] by (simp add: error_detail_def)

lemma try_formats_run:
  "try_formats w b us =
     (map snd (takeWhile (unusable w) (map (Pair b) us)
               @ take 1 (dropWhile (unusable w) (map (Pair b) us))),
      map (error_detail w) (takeWhile (unusable w) (map (Pair b) us)),
      list_ex (\<lambda>bu. usable w (snd bu)) (map (Pair b) us))"
proof (induction us)
  case Nil
  then show ?case by simp
next
  case (Cons u us)
  show ?case
  proof (cases "try_url w b u")
    case Extracted
    then have "usable w u" by (simp add: try_url_usable)
    then show ?thesis using Extracted by (simp add: unusable_def)
  next
    case (Failed e)
    from try_url_failed [OF this] show ?thesis using Failed Cons.IH
      by (simp add: unusable_def)
  qed
qed

lemma takeWhile_all: "\<not> list_ex (\<lambda>x. \<not> P x) xs \<Longrightarrow> takeWhile P xs = xs \<and> dropWhile P xs = []"
  by (induction xs) auto

lemma takeWhile_first:
  "list_ex (\<lambda>x. \<not> P x) xs \<Longrightarrow>
     takeWhile P (xs @ ys) = takeWhile P xs \<and>
     take 1 (dropWhile P (xs @ ys)) = take 1 (dropWhile P xs)"
  by (induction xs) auto

lemma takeWhile_later:
  "\<not> list_ex (\<lambda>x. \<not> P x) xs \<Longrightarrow>
     takeWhile P (xs @ ys) = xs @ takeWhile P ys \<and>
     dropWhile P (xs @ ys) = dropWhile P ys"
  by (induction xs) auto

lemma try_branches_run:
  "try_branches w owner repo bs =
     (map snd (takeWhile (unusable w) (combinations owner repo bs)
               @ take 1 (dropWhile (unusable w) (combinations owner repo bs))),
      map (error_detail w) (takeWhile (unusable w) (combinations owner repo bs)),
      list_ex (\<lambda>bu. usable w (snd bu)) (combinations owner repo bs))"
proof (induction bs)
  case Nil
  then show ?case by (simp add: combinations_def)
next
  case (Cons b bs)
  define ps where "ps = map (Pair b) (urlFormats owner repo b)"
  define rest where "rest = combinations owner repo bs"
  have split: "combinations owner repo (b # bs) = ps @ rest"
    by (simp add: combinations_def ps_def rest_def)
  have neg: "(\<lambda>x. \<not> unusable w x) = (\<lambda>bu. usable w (snd bu))"
    by (simp add: unusable_def)
  have tf: "try_formats w b (urlFormats owner repo b) =
      (map snd (takeWhile (unusable w) ps @ take 1 (dropWhile (unusable w) ps)),
       map (error_detail w) (takeWhile (unusable w) ps),
       list_ex (\<lambda>bu. usable w (snd bu)) ps)"
    unfolding ps_def by (rule try_formats_run)
  have IH: "try_branches w owner repo bs =
      (map snd (takeWhile (unusable w) rest @ take 1 (dropWhile (unusable w) rest)),
       map (error_detail w) (takeWhile (unusable w) rest),
       list_ex (\<lambda>bu. usable w (snd bu)) rest)"
    unfolding rest_def by (rule Cons.IH)
  show ?case
  proof (cases "list_ex (\<lambda>bu. usable w (snd bu)) ps")
    case True
    then have "list_ex (\<lambda>x. \<not> unusable w x) ps" by (simp add: neg)
    from takeWhile_first [OF this, of rest]
    have tw: "takeWhile (unusable w) (ps @ rest) = takeWhile (unusable w) ps"
      and dw: "take 1 (dropWhile (unusable w) (ps @ rest)) = take 1 (dropWhile (unusable w) ps)"
      by blast+
    have ex: "list_ex (\<lambda>bu. usable w (snd bu)) (ps @ rest)" using True by simp
    show ?thesis
      unfolding split try_branches.simps tf
      by (simp only: True tw dw ex prod.case if_True)
  next
    case False
    then have none: "\<not> list_ex (\<lambda>x. \<not> unusable w x) ps" by (simp add: neg)
    from takeWhile_later [OF none, of rest]
    have tw: "takeWhile (unusable w) (ps @ rest) = ps @ takeWhile (unusable w) rest"
      and dw: "dropWhile (unusable w) (ps @ rest) = dropWhile (unusable w) rest"
      by blast+
    from takeWhile_all [OF none]
    have tw0: "takeWhile (unusable w) ps = ps" and dw0: "dropWhile (unusable w) ps = []"
      by blast+
    have ex: "list_ex (\<lambda>bu. usable w (snd bu)) (ps @ rest)
        = list_ex (\<lambda>bu. usable w (snd bu)) rest"
      using False by simp
    show ?thesis
      unfolding split try_branches.simps tf IH
      by (simp only: False tw dw tw0 dw0 ex prod.case if_False take.simps append_Nil2
            map_append append_assoc)
  qed
qed

lemma foldl_set_add:
  "foldl set_add acc xs = acc @ first_seen (filter (\<lambda>x. x \<notin> set acc) xs)"
proof (induction xs arbitrary: acc)
  case Nil
  then show ?case by simp
next
  case (Cons x xs)
  show ?case
  proof (cases "x \<in> set acc")
    case True
    then show ?thesis using Cons.IH [of acc] by (simp add: set_add_def)
  next
    case False
    have split: "filter (\<lambda>y. y \<notin> set (acc @ [x])) xs
        = filter (\<lambda>y. y \<noteq> x) (filter (\<lambda>y. y \<notin> set acc) xs)"
      by (induction xs) auto
    have "foldl set_add acc (x # xs) = foldl set_add (acc @ [x]) xs"
      using False by (simp add: set_add_def)
    also have "\<dots> = (acc @ [x]) @ first_seen (filter (\<lambda>y. y \<notin> set (acc @ [x])) xs)"
      by (rule Cons.IH)
    also have "\<dots> = acc @ x # filter (\<lambda>y. y \<noteq> x) (first_seen (filter (\<lambda>y. y \<notin> set acc) xs))"
      by (simp only: split filter_first_seen append_assoc append_Cons append_Nil)
    also have "\<dots> = acc @ first_seen (filter (\<lambda>y. y \<notin> set acc) (x # xs))"
      using False by simp
    finally show ?thesis .
  qed
qed

lemma new_Set_first_seen: "new_Set xs = first_seen xs"
  by (simp add: new_Set_def foldl_set_add)

lemma length_first_seen: "length (first_seen xs) \<le> length xs"
proof (induction xs)
  case Nil
  then show ?case by simp
next
  case (Cons x xs)
  have "length (filter (\<lambda>y. y \<noteq> x) (first_seen xs)) \<le> length (first_seen xs)"
    by (rule length_filter_le)
  also have "\<dots> \<le> length xs" by (rule Cons.IH)
  finally show ?case by simp
qed

lemma length_combinations: "length (combinations owner repo bs) = 3 * length bs"
  by (induction bs) (simp_all add: combinations_def urlFormats_def)

text \<open>
  C2 (as amended).  When the URL is well formed and the clone fails, the handler goes
  through the combinations of the branch list \<open>[defaultBranch, "main", "master"]\<close>,
  each branch once and where it first occurs, with the three URL formats, at most 9 of
  them (the default branch is \<open>main\<close> when the branch query fails); it fetches them in
  order up to and including the first one whose response is \<open>ok\<close>, not empty, begins with
  \<open>0x50 0x4B\<close> and is extracted by the archive library, and ends there; and when no
  combination is such, it fails with the error whose text holds the branch list and,
  joined by \<open>; \<close>, the error detail of every combination.
\<close>

theorem C2_fallback:
  assumes "search githubRegex repoUrl = Some m" and "\<not> clone_succeeds w"
  shows "(branch_reply w = Unreachable \<or> branch_reply w = Refused \<longrightarrow> defaultBranch w = ''main'') \<and>
         length (combinations (group m 1) (group m 2)
                   (first_seen [defaultBranch w, ''main'', ''master''])) \<le> 9 \<and>
         fst (acquire_remote w repoUrl)
           = map snd
               (takeWhile (unusable w)
                  (combinations (group m 1) (group m 2)
                     (first_seen [defaultBranch w, ''main'', ''master'']))
                @ take 1
                    (dropWhile (unusable w)
                       (combinations (group m 1) (group m 2)
                          (first_seen [defaultBranch w, ''main'', ''master''])))) \<and>
         snd (acquire_remote w repoUrl)
           = (if list_ex (\<lambda>bu. usable w (snd bu))
                   (combinations (group m 1) (group m 2)
                      (first_seen [defaultBranch w, ''main'', ''master'']))
              then Inr Downloaded
              else Inl (Error (''Failed to download repository. Tried branches: '' @
                        join '', '' (first_seen [defaultBranch w, ''main'', ''master'']) @
                        ''. Details: '' @
                        join ''; ''
                          (map (error_detail w)
                             (combinations (group m 1) (group m 2)
                                (first_seen [defaultBranch w, ''main'', ''master'']))))))"
proof -
  define bs where "bs = first_seen [defaultBranch w, ''main'', ''master'']"
  define cs where "cs = combinations (group m 1) (group m 2) bs"
  have a: "branch_reply w = Unreachable \<or> branch_reply w = Refused \<longrightarrow> defaultBranch w = ''main''"
    by (auto simp: defaultBranch_def)
  have "length bs \<le> length [defaultBranch w, ''main'', ''master'']"
    unfolding bs_def by (rule length_first_seen)
  then have b: "length cs \<le> 9"
    by (simp add: cs_def length_combinations)
  have "acquire_remote w repoUrl
      = download_repo w (group m 1) (group m 2) (defaultBranch w)"
    using assms by (simp add: acquire_remote_def)
  also have "\<dots> = (case try_branches w (group m 1) (group m 2) bs of
           (fetched, errors, downloaded) \<Rightarrow>
             (fetched,
              if \<not> downloaded
              then Inl (Error (''Failed to download repository. Tried branches: '' @
                               join '', '' bs @ ''. Details: '' @ join ''; '' errors))
              else Inr Downloaded))"
    by (simp only: download_repo_def new_Set_first_seen Let_def bs_def)
  finally have acq: "acquire_remote w repoUrl
      = (map snd (takeWhile (unusable w) cs @ take 1 (dropWhile (unusable w) cs)),
         if \<not> list_ex (\<lambda>bu. usable w (snd bu)) cs
         then Inl (Error (''Failed to download repository. Tried branches: '' @
                          join '', '' bs @ ''. Details: '' @
                          join ''; '' (map (error_detail w) (takeWhile (unusable w) cs))))
         else Inr Downloaded)"
    by (simp only: try_branches_run prod.case cs_def)
  have neg: "(\<lambda>x. \<not> unusable w x) = (\<lambda>bu. usable w (snd bu))"
    by (simp add: unusable_def)
  have c: "fst (acquire_remote w repoUrl)
      = map snd (takeWhile (unusable w) cs @ take 1 (dropWhile (unusable w) cs))"
    by (simp only: acq fst_conv)
  have d: "snd (acquire_remote w repoUrl)
      = (if list_ex (\<lambda>bu. usable w (snd bu)) cs then Inr Downloaded
         else Inl (Error (''Failed to download repository. Tried branches: '' @
                   join '', '' bs @ ''. Details: '' @ join ''; '' (map (error_detail w) cs))))"
  proof (cases "list_ex (\<lambda>bu. usable w (snd bu)) cs")
    case True
    then show ?thesis by (simp only: acq snd_conv True not_True_eq_False if_False if_True)
  next
    case False
    then have "\<not> list_ex (\<lambda>x. \<not> unusable w x) cs" by (simp add: neg)
    from takeWhile_all [OF this] have "takeWhile (unusable w) cs = cs" by blast
    then show ?thesis by (simp only: acq snd_conv False not_False_eq_True if_True if_False)
  qed
  from a b c d show ?thesis unfolding cs_def bs_def by blast
qed

lemma github_url:
  "search githubRegex ''https://github.com/acme/app''
     = Some \<lparr>m_from = ''https://github.com/acme/app'', m_rest = [],
              m_caps = [(2, ''app''), (1, ''acme'')]\<rparr>"
  by code_simp

lemmas world_defs = usable_def unusable_def error_detail_def combinations_def urlFormats_def
  try_url_def isZipFile_def defaultBranch_def group_def Let_def

theorem C2_fallback_witness:
  "fst (acquire_remote fallback_world ''https://github.com/acme/app'')
     = [''https://github.com/acme/app/archive/main.zip'',
        ''https://api.github.com/repos/acme/app/zipball/main'',
        ''https://github.com/acme/app/archive/refs/heads/main.zip'',
        ''https://github.com/acme/app/archive/master.zip''] \<and>
   snd (acquire_remote fallback_world ''https://github.com/acme/app'') = Inr Downloaded \<and>
   fst (acquire_remote dead_world ''https://github.com/acme/app'')
     = [''https://github.com/acme/app/archive/main.zip'',
        ''https://api.github.com/repos/acme/app/zipball/main'',
        ''https://github.com/acme/app/archive/refs/heads/main.zip'',
        ''https://github.com/acme/app/archive/master.zip'',
        ''https://api.github.com/repos/acme/app/zipball/master'',
        ''https://github.com/acme/app/archive/refs/heads/master.zip''] \<and>
   snd (acquire_remote dead_world ''https://github.com/acme/app'')
     = Inl (Error (''Failed to download repository. Tried branches: main, master. Details: '' @
          ''Branch main (https://github.com/acme/app/archive/main.zip): 404 Not Found; '' @
          ''Branch main (https://api.github.com/repos/acme/app/zipball/main): 404 Not Found; '' @
          ''Branch main (https://github.com/acme/app/archive/refs/heads/main.zip): 404 Not Found; '' @
          ''Branch master (https://github.com/acme/app/archive/master.zip): 404 Not Found; '' @
          ''Branch master (https://api.github.com/repos/acme/app/zipball/master): 404 Not Found; '' @
          ''Branch master (https://github.com/acme/app/archive/refs/heads/master.zip): 404 Not Found''))"
proof -
  have f: "\<not> clone_succeeds fallback_world" "branch_reply fallback_world = Unreachable"
    by (simp_all add: fallback_world_def)
  have d: "\<not> clone_succeeds dead_world" "branch_reply dead_world = Refused"
    by (simp_all add: dead_world_def)
  have n: "show_nat 404 = ''404''"
    by (simp add: show_nat.simps)
  note live = C2_fallback [OF github_url f(1)]
  note dead = C2_fallback [OF github_url d(1)]
  have a: "fst (acquire_remote fallback_world ''https://github.com/acme/app'')
     = [''https://github.com/acme/app/archive/main.zip'',
        ''https://api.github.com/repos/acme/app/zipball/main'',
        ''https://github.com/acme/app/archive/refs/heads/main.zip'',
        ''https://github.com/acme/app/archive/master.zip'']"
    unfolding live [THEN conjunct2, THEN conjunct2, THEN conjunct1]
    by (simp add: world_defs f fallback_world_def)
  have b: "snd (acquire_remote fallback_world ''https://github.com/acme/app'') = Inr Downloaded"
    unfolding live [THEN conjunct2, THEN conjunct2, THEN conjunct2]
    by (simp add: world_defs f fallback_world_def)
  have c: "fst (acquire_remote dead_world ''https://github.com/acme/app'')
     = [''https://github.com/acme/app/archive/main.zip'',
        ''https://api.github.com/repos/acme/app/zipball/main'',
        ''https://github.com/acme/app/archive/refs/heads/main.zip'',
        ''https://github.com/acme/app/archive/master.zip'',
        ''https://api.github.com/repos/acme/app/zipball/master'',
        ''https://github.com/acme/app/archive/refs/heads/master.zip'']"
    unfolding dead [THEN conjunct2, THEN conjunct2, THEN conjunct1]
    by (simp add: world_defs d dead_world_def)
  have e: "snd (acquire_remote dead_world ''https://github.com/acme/app'')
     = Inl (Error (''Failed to download repository. Tried branches: main, master. Details: '' @
          ''Branch main (https://github.com/acme/app/archive/main.zip): 404 Not Found; '' @
          ''Branch main (https://api.github.com/repos/acme/app/zipball/main): 404 Not Found; '' @
          ''Branch main (https://github.com/acme/app/archive/refs/heads/main.zip): 404 Not Found; '' @
          ''Branch master (https://github.com/acme/app/archive/master.zip): 404 Not Found; '' @
          ''Branch master (https://api.github.com/repos/acme/app/zipball/master): 404 Not Found; '' @
          ''Branch master (https://github.com/acme/app/archive/refs/heads/master.zip): 404 Not Found''))"
    unfolding dead [THEN conjunct2, THEN conjunct2, THEN conjunct2]
    by (simp add: world_defs d dead_world_def n)
  from a b c e show ?thesis by blast
qed

text \<open>
  C2 as stated fails: a first response that is not empty and begins with \<open>0x50 0x4B\<close>
  does not stop the loop when the archive library throws on it; the handler then
  fetches the other five combinations and fails.
\<close>

theorem C2_corrupt_archive_counterexample:
  "fetch corrupt_world ''https://github.com/acme/app/archive/main.zip'' = Payload [0x50, 0x4B] \<and>
   isZipFile [0x50, 0x4B] \<and>
   fst (acquire_remote corrupt_world ''https://github.com/acme/app'')
     = [''https://github.com/acme/app/archive/main.zip'',
        ''https://api.github.com/repos/acme/app/zipball/main'',
        ''https://github.com/acme/app/archive/refs/heads/main.zip'',
        ''https://github.com/acme/app/archive/master.zip'',
        ''https://api.github.com/repos/acme/app/zipball/master'',
        ''https://github.com/acme/app/archive/refs/heads/master.zip''] \<and>
   isl (snd (acquire_remote corrupt_world ''https://github.com/acme/app''))"
proof -
  have n: "show_nat 404 = ''404''"
    by (simp add: show_nat.simps)
  show ?thesis
    by (simp add: acquire_remote_def github_url download_repo_def new_Set_def set_add_def
          corrupt_world_def world_defs n)
qed

end
